theory Spec2Isabelle
  imports Complex_Main "HOL-Library.Sublist"
begin

section \<open>Strings\<close>

text \<open>
  JavaScript strings are modelled as \<^typ>\<open>string\<close>: a list of code units, restricted to
  the code units below 256. \<open>is_space\<close> holds of the code units that \<open>String.prototype.trim\<close>
  strips and that the regular expression class \<open>\s\<close> matches (in this range: TAB, LF, VT, FF,
  CR, SPACE and NO-BREAK SPACE).
\<close>

definition is_space :: "char \<Rightarrow> bool" where
  "is_space c \<longleftrightarrow>
     c = CHR 0x09 \<or> c = CHR 0x0A \<or> c = CHR 0x0B \<or> c = CHR 0x0C \<or> c = CHR 0x0D \<or>
     c = CHR 0x20 \<or> c = CHR 0xA0"

definition trim :: "string \<Rightarrow> string" where
  "trim s = rev (dropWhile is_space (rev (dropWhile is_space s)))"

section \<open>Content validation (src/lib/gemini.ts, validateContent)\<close>

record validation =
  isValid :: bool
  error :: "string option"

definition validateContent :: "string \<Rightarrow> validation" where
  "validateContent content =
     (if content = [] \<or> length (trim content) = 0 then
        \<lparr>isValid = False, error = Some ''Content is empty''\<rparr>
      else if length content < 100 then
        \<lparr>isValid = False, error = Some ''Content too short for meaningful analysis''\<rparr>
      else if length content > 100000 then
        \<lparr>isValid = False, error = Some ''Content too long - please upload a smaller file''\<rparr>
      else \<lparr>isValid = True, error = None\<rparr>)"

section \<open>Numbers\<close>

text \<open>
  A JavaScript number is modelled as an exact rational, one of the two infinities, or NaN.
  The rounding of a decimal to the nearest binary64 value, overflow to an infinity and the
  sign of zero are not modelled: a finite value is the exact value of the decimal that was
  read.
\<close>

datatype number = Fin rat | PosInf | NegInf | NaN

fun num_neg :: "number \<Rightarrow> number" where
  "num_neg (Fin r) = Fin (- r)"
| "num_neg PosInf = NegInf"
| "num_neg NegInf = PosInf"
| "num_neg NaN = NaN"

fun num_sub :: "number \<Rightarrow> number \<Rightarrow> number" where
  "num_sub NaN _ = NaN"
| "num_sub _ NaN = NaN"
| "num_sub (Fin a) (Fin b) = Fin (a - b)"
| "num_sub (Fin a) PosInf = NegInf"
| "num_sub (Fin a) NegInf = PosInf"
| "num_sub PosInf PosInf = NaN"
| "num_sub PosInf _ = PosInf"
| "num_sub NegInf NegInf = NaN"
| "num_sub NegInf _ = NegInf"

text \<open>\<open>num_gt a b\<close> is the comparison \<open>a > b\<close>; a comparison with NaN is false.\<close>

fun num_gt :: "number \<Rightarrow> number \<Rightarrow> bool" where
  "num_gt NaN _ = False"
| "num_gt _ NaN = False"
| "num_gt (Fin a) (Fin b) = (b < a)"
| "num_gt (Fin a) PosInf = False"
| "num_gt (Fin a) NegInf = True"
| "num_gt PosInf PosInf = False"
| "num_gt PosInf _ = True"
| "num_gt NegInf _ = False"

definition num_lt :: "number \<Rightarrow> number \<Rightarrow> bool" where
  "num_lt a b = num_gt b a"

text \<open>\<open>Math.max\<close> of two numbers: NaN if either is NaN.\<close>

definition num_max :: "number \<Rightarrow> number \<Rightarrow> number" where
  "num_max a b = (if a = NaN \<or> b = NaN then NaN else if num_gt b a then b else a)"

text \<open>
  A \<open>number | null\<close> is a \<^typ>\<open>number option\<close>. In arithmetic and in comparisons
  \<open>null\<close> converts to zero.
\<close>

fun to_number :: "number option \<Rightarrow> number" where
  "to_number None = Fin 0"
| "to_number (Some n) = n"

subsection \<open>parseFloat\<close>

definition is_digit :: "char \<Rightarrow> bool" where
  "is_digit c \<longleftrightarrow> c \<in> set ''0123456789''"

definition digit_val :: "char \<Rightarrow> nat" where
  "digit_val c = of_char c - 48"

definition digits_val :: "string \<Rightarrow> nat" where
  "digits_val ds = foldl (\<lambda>a c. 10 * a + digit_val c) 0 ds"

definition pow10 :: "int \<Rightarrow> rat" where
  "pow10 e = (if 0 \<le> e then 10 ^ nat e else 1 / 10 ^ nat (- e))"

fun strip_sign :: "string \<Rightarrow> int \<times> string" where
  "strip_sign [] = (1, [])"
| "strip_sign (c # r) =
     (if c = CHR ''+'' then (1, r) else if c = CHR ''-'' then (- 1, r) else (1, c # r))"

text \<open>
  The value of an exponent part at the head of \<open>r\<close>: \<open>e\<close> or \<open>E\<close>, an optional sign and
  at least one digit. Anything else is not an exponent and counts as exponent zero.
\<close>

definition exponent_part :: "string \<Rightarrow> int" where
  "exponent_part r =
     (case r of
        [] \<Rightarrow> 0
      | e # r' \<Rightarrow>
          if e = CHR ''e'' \<or> e = CHR ''E'' then
            (let ds = takeWhile is_digit (snd (strip_sign r'))
             in if ds = [] then 0 else fst (strip_sign r') * int (digits_val ds))
          else 0)"

text \<open>
  The value of an unsigned decimal literal at the head of \<open>u\<close>: digits with an optional
  fraction and an optional exponent, with at least one digit before or after the point;
  \<open>None\<close> if \<open>u\<close> does not start with one. What follows the literal is ignored.
\<close>

definition unsigned_literal :: "string \<Rightarrow> rat option" where
  "unsigned_literal u =
     (let ip = takeWhile is_digit u;
          r1 = dropWhile is_digit u;
          has_dot = (r1 \<noteq> [] \<and> hd r1 = CHR ''.'');
          fp = (if has_dot then takeWhile is_digit (tl r1) else []);
          r2 = (if has_dot then dropWhile is_digit (tl r1) else r1)
      in if ip = [] \<and> fp = [] then None
         else Some (of_nat (digits_val (ip @ fp)) * pow10 (exponent_part r2 - int (length fp))))"

text \<open>
  \<open>parseFloat\<close> skips leading white space and reads the longest prefix that is a decimal
  literal: an optional sign, then \<open>Infinity\<close> or an unsigned decimal literal. Without such
  a prefix the result is NaN.
\<close>

definition parseFloat :: "string \<Rightarrow> number" where
  "parseFloat s =
     (let sg = fst (strip_sign (dropWhile is_space s));
          u = snd (strip_sign (dropWhile is_space s))
      in if prefix ''Infinity'' u then (if sg = 1 then PosInf else NegInf)
         else (case unsigned_literal u of
                 None \<Rightarrow> NaN
               | Some r \<Rightarrow> Fin (of_int sg * r)))"

section \<open>Dashboard service (DashboardService)\<close>

subsection \<open>Numeric extraction\<close>

definition extractNumericValue :: "string \<Rightarrow> number option" where
  "extractNumericValue value =
     (if value = [] \<or> value = ''N/A'' then None
      else
        let cleaned = filter (\<lambda>c. \<not> (c = CHR ''$'' \<or> c = CHR '','' \<or> is_space c \<or> c = CHR ''%'')) value;
            isNegative = (CHR ''('' \<in> set cleaned \<and> CHR '')'' \<in> set cleaned);
            numericString = filter (\<lambda>c. \<not> (c = CHR ''('' \<or> c = CHR '')'')) cleaned;
            number = parseFloat numericString
        in if number = NaN then None else Some (if isNegative then num_neg number else number))"

text \<open>
  The string that \<open>extractNumericValue\<close> hands to \<open>parseFloat\<close>: the input without dollar
  signs, commas, white space, percent signs and parentheses.
\<close>

definition numericString :: "string \<Rightarrow> string" where
  "numericString value =
     filter (\<lambda>c. \<not> (c = CHR ''('' \<or> c = CHR '')''))
       (filter (\<lambda>c. \<not> (c = CHR ''$'' \<or> c = CHR '','' \<or> is_space c \<or> c = CHR ''%'')) value)"

definition extractPercentageValue :: "string \<Rightarrow> number option" where
  "extractPercentageValue value =
     (if value = [] \<or> value = ''N/A'' then None
      else
        let cleaned = filter (\<lambda>c. \<not> (c = CHR ''%'' \<or> is_space c)) value;
            number = parseFloat cleaned
        in if number = NaN then None else Some number)"

text \<open>
  The letters that a magnitude suffix such as \<open>K\<close>, \<open>M\<close> or \<open>B\<close> is made of.
\<close>

definition is_letter :: "char \<Rightarrow> bool" where
  "is_letter c \<longleftrightarrow> c \<in> set ''abcdefghijklmnopqrstuvwxyzABCDEFGHIJKLMNOPQRSTUVWXYZ''"

subsection \<open>Data model (src/types/index.ts)\<close>

text \<open>
  The six KPI fields that the interface declares optional are \<^typ>\<open>string option\<close>, with
  \<open>None\<close> for \<open>undefined\<close>. Dates are milliseconds since the epoch. Three field names
  of the source are changed: \<open>id\<close> is \<open>analysis_id\<close> and \<open>insight_id\<close>, \<open>title\<close> of an
  insight is \<open>insight_title\<close>, and \<open>type\<close> is \<open>ctype\<close> in a chart and \<open>itype\<close> in an
  insight.
\<close>

record KPIs =
  revenue :: string
  expenses :: string
  netProfit :: string
  growthRate :: string
  totalAssets :: "string option"
  totalLiabilities :: "string option"
  cashFlow :: "string option"
  debtToEquityRatio :: "string option"
  returnOnInvestment :: "string option"
  profitMargin :: "string option"

record Analysis =
  analysis_id :: string
  fileId :: string
  summary :: string
  kpis :: KPIs
  risks :: "string list"
  opportunities :: "string list"
  recommendations :: "string list"
  createdAt :: int
  updatedAt :: int

datatype chart_type = Line | Bar | Pie | Area

text \<open>
  The entries of a chart's \<open>data\<close> array, one constructor for each shape of object literal
  that the service builds: \<open>{category, value, formatted}\<close>, \<open>{name, value, formatted}\<close>,
  \<open>{metric, value, formatted}\<close> and \<open>{category, value, items}\<close>.
\<close>

datatype datum =
    CategoryDatum string "number option" string
  | NameDatum string "number option" "string option"
  | MetricDatum string "number option" "string option"
  | ItemsDatum string nat "string list"

record ChartData =
  ctype :: chart_type
  title :: string
  data :: "datum list"
  xAxisKey :: "string option"
  yAxisKey :: "string option"
  dataKey :: "string option"

datatype insight_type = Positive | Negative | Neutral

datatype importance_level = High | Medium | Low

record Insight =
  insight_id :: string
  insight_title :: string
  description :: string
  itype :: insight_type
  importance :: importance_level

record DashboardGenerationResult =
  chartData :: "ChartData list"
  insights :: "Insight list"

subsection \<open>Helpers for JavaScript's dynamic typing\<close>

text \<open>
  The numeric extractors are declared on \<open>string\<close> but are called on optional fields;
  \<open>undefined\<close> is falsy, so their first test returns \<open>null\<close> for it.
\<close>

fun extractNumericValue_opt :: "string option \<Rightarrow> number option" where
  "extractNumericValue_opt None = None"
| "extractNumericValue_opt (Some v) = extractNumericValue v"

fun extractPercentageValue_opt :: "string option \<Rightarrow> number option" where
  "extractPercentageValue_opt None = None"
| "extractPercentageValue_opt (Some v) = extractPercentageValue v"

text \<open>A string in a template literal; \<open>undefined\<close> prints as \<open>undefined\<close>.\<close>

fun show_opt :: "string option \<Rightarrow> string" where
  "show_opt None = ''undefined''"
| "show_opt (Some v) = v"

text \<open>A non-negative integer in a template literal, in decimal.\<close>

definition digit_char :: "nat \<Rightarrow> char" where
  "digit_char d = ''0123456789'' ! d"

fun show_nat :: "nat \<Rightarrow> string" where
  "show_nat n =
     (if n < 10 then [digit_char n] else show_nat (n div 10) @ [digit_char (n mod 10)])"

fun datum_value_null :: "datum \<Rightarrow> bool" where
  "datum_value_null (CategoryDatum _ v _) = (v = None)"
| "datum_value_null (NameDatum _ v _) = (v = None)"
| "datum_value_null (MetricDatum _ v _) = (v = None)"
| "datum_value_null (ItemsDatum _ _ _) = False"

subsection \<open>generateChartData\<close>

text \<open>
  \<open>formatCurrency\<close> formats with the platform's \<open>Intl.NumberFormat\<close> (en-US, USD, compact
  notation), which is not part of the repository: it is the parameter \<open>fmt\<close>.
\<close>

definition financialOverview :: "Analysis \<Rightarrow> ChartData" where
  "financialOverview analysis =
     \<lparr>ctype = Bar, title = ''Financial Overview'',
      data =
        [CategoryDatum ''Revenue'' (extractNumericValue (revenue (kpis analysis)))
           (revenue (kpis analysis)),
         CategoryDatum ''Expenses'' (extractNumericValue (expenses (kpis analysis)))
           (expenses (kpis analysis)),
         CategoryDatum ''Net Profit'' (extractNumericValue (netProfit (kpis analysis)))
           (netProfit (kpis analysis))],
      xAxisKey = Some ''category'', yAxisKey = Some ''value'', dataKey = None\<rparr>"

definition balanceSheet :: "(number \<Rightarrow> string) \<Rightarrow> Analysis \<Rightarrow> ChartData list" where
  "balanceSheet fmt analysis =
     (if totalAssets (kpis analysis) \<noteq> Some ''N/A'' \<and>
         totalLiabilities (kpis analysis) \<noteq> Some ''N/A'' then
        let assetValue = extractNumericValue_opt (totalAssets (kpis analysis));
            liabilityValue = extractNumericValue_opt (totalLiabilities (kpis analysis));
            equity = num_sub (to_number assetValue) (to_number liabilityValue)
        in if num_gt (to_number assetValue) (Fin 0) then
             [\<lparr>ctype = Pie, title = ''Balance Sheet Composition'',
               data =
                 [NameDatum ''Assets'' assetValue (totalAssets (kpis analysis)),
                  NameDatum ''Liabilities'' liabilityValue (totalLiabilities (kpis analysis)),
                  NameDatum ''Equity'' (Some (num_max (Fin 0) equity)) (Some (fmt equity))],
               xAxisKey = None, yAxisKey = None, dataKey = Some ''value''\<rparr>]
           else []
      else [])"

definition performanceMetrics :: "Analysis \<Rightarrow> ChartData" where
  "performanceMetrics analysis =
     \<lparr>ctype = Area, title = ''Performance Metrics'',
      data =
        filter (\<lambda>item. \<not> datum_value_null item)
          [MetricDatum ''Growth Rate'' (extractPercentageValue (growthRate (kpis analysis)))
             (Some (growthRate (kpis analysis))),
           MetricDatum ''Profit Margin''
             (extractPercentageValue_opt (profitMargin (kpis analysis)))
             (profitMargin (kpis analysis)),
           MetricDatum ''ROI''
             (extractPercentageValue_opt (returnOnInvestment (kpis analysis)))
             (returnOnInvestment (kpis analysis))],
      xAxisKey = Some ''metric'', yAxisKey = Some ''value'', dataKey = None\<rparr>"

definition riskOpportunityData :: "Analysis \<Rightarrow> ChartData" where
  "riskOpportunityData analysis =
     \<lparr>ctype = Bar, title = ''Risk vs Opportunity Analysis'',
      data =
        [ItemsDatum ''Risks Identified'' (length (risks analysis)) (risks analysis),
         ItemsDatum ''Opportunities Found'' (length (opportunities analysis))
           (opportunities analysis),
         ItemsDatum ''Recommendations'' (length (recommendations analysis))
           (recommendations analysis)],
      xAxisKey = Some ''category'', yAxisKey = Some ''value'', dataKey = None\<rparr>"

definition generateChartData :: "(number \<Rightarrow> string) \<Rightarrow> Analysis \<Rightarrow> ChartData list" where
  "generateChartData fmt analysis =
     [financialOverview analysis] @
     balanceSheet fmt analysis @
     (if length (data (performanceMetrics analysis)) > 0 then [performanceMetrics analysis]
      else []) @
     [riskOpportunityData analysis]"

subsection \<open>generateInsights\<close>

definition profitabilityInsight :: "Analysis \<Rightarrow> Insight list" where
  "profitabilityInsight analysis =
     (case extractNumericValue (netProfit (kpis analysis)) of
        None \<Rightarrow> []
      | Some netProfitValue \<Rightarrow>
          [\<lparr>insight_id = ''profitability'', insight_title = ''Profitability Analysis'',
            description =
              (if num_gt netProfitValue (Fin 0)
               then ''Company shows positive profitability with net profit of '' @
                      netProfit (kpis analysis)
               else ''Company has negative profitability with net loss of '' @
                      netProfit (kpis analysis)),
            itype = (if num_gt netProfitValue (Fin 0) then Positive else Negative),
            importance = High\<rparr>])"

definition growthInsight :: "Analysis \<Rightarrow> Insight list" where
  "growthInsight analysis =
     (case extractPercentageValue (growthRate (kpis analysis)) of
        None \<Rightarrow> []
      | Some rate \<Rightarrow>
          [\<lparr>insight_id = ''growth'', insight_title = ''Growth Performance'',
            description =
              (if num_gt rate (Fin 0)
               then ''Strong growth trajectory with '' @ growthRate (kpis analysis) @
                      '' growth rate''
               else ''Declining performance with '' @ growthRate (kpis analysis) @
                      '' growth rate''),
            itype =
              (if num_gt rate (Fin 5) then Positive
               else if num_lt rate (Fin 0) then Negative else Neutral),
            importance = High\<rparr>])"

definition cashFlowInsight :: "Analysis \<Rightarrow> Insight list" where
  "cashFlowInsight analysis =
     (if cashFlow (kpis analysis) \<noteq> Some ''N/A'' then
        (case extractNumericValue_opt (cashFlow (kpis analysis)) of
           None \<Rightarrow> []
         | Some cashFlowValue \<Rightarrow>
             [\<lparr>insight_id = ''cashflow'', insight_title = ''Cash Flow Status'',
               description =
                 (if num_gt cashFlowValue (Fin 0)
                  then ''Healthy cash flow from operations: '' @
                         show_opt (cashFlow (kpis analysis))
                  else ''Negative cash flow requiring attention: '' @
                         show_opt (cashFlow (kpis analysis))),
               itype = (if num_gt cashFlowValue (Fin 0) then Positive else Negative),
               importance = High\<rparr>])
      else [])"

definition riskInsight :: "Analysis \<Rightarrow> Insight list" where
  "riskInsight analysis =
     (if length (risks analysis) > 0 then
        [\<lparr>insight_id = ''risks'', insight_title = ''Risk Assessment'',
          description =
            show_nat (length (risks analysis)) @
            '' potential risks identified that require management attention'',
          itype = (if length (risks analysis) > 3 then Negative else Neutral),
          importance = (if length (risks analysis) > 3 then High else Medium)\<rparr>]
      else [])"

definition opportunityInsight :: "Analysis \<Rightarrow> Insight list" where
  "opportunityInsight analysis =
     (if length (opportunities analysis) > 0 then
        [\<lparr>insight_id = ''opportunities'', insight_title = ''Growth Opportunities'',
          description =
            show_nat (length (opportunities analysis)) @
            '' growth opportunities identified for business expansion'',
          itype = Positive, importance = Medium\<rparr>]
      else [])"

definition leverageInsight :: "Analysis \<Rightarrow> Insight list" where
  "leverageInsight analysis =
     (if debtToEquityRatio (kpis analysis) \<noteq> Some ''N/A'' then
        (case extractNumericValue_opt (debtToEquityRatio (kpis analysis)) of
           None \<Rightarrow> []
         | Some debtRatio \<Rightarrow>
             [\<lparr>insight_id = ''leverage'', insight_title = ''Financial Leverage'',
               description =
                 (if num_gt debtRatio (Fin 1)
                  then ''High leverage with debt-to-equity ratio of '' @
                         show_opt (debtToEquityRatio (kpis analysis))
                  else ''Conservative leverage with debt-to-equity ratio of '' @
                         show_opt (debtToEquityRatio (kpis analysis))),
               itype =
                 (if num_gt debtRatio (Fin (3 / 2)) then Negative
                  else if num_gt debtRatio (Fin 1) then Neutral else Positive),
               importance = (if num_gt debtRatio (Fin (3 / 2)) then High else Medium)\<rparr>])
      else [])"

definition generateInsights :: "Analysis \<Rightarrow> Insight list" where
  "generateInsights analysis =
     profitabilityInsight analysis @ growthInsight analysis @ cashFlowInsight analysis @
     riskInsight analysis @ opportunityInsight analysis @ leverageInsight analysis"

subsection \<open>generateDashboard\<close>

definition generateDashboard :: "(number \<Rightarrow> string) \<Rightarrow> Analysis \<Rightarrow> DashboardGenerationResult" where
  "generateDashboard fmt analysis =
     \<lparr>chartData = generateChartData fmt analysis, insights = generateInsights analysis\<rparr>"

subsection \<open>The numbers of a dashboard, and values with a magnitude suffix\<close>

text \<open>The \<open>value\<close> property of a chart entry, and the values of a chart in order.\<close>

fun datum_value :: "datum \<Rightarrow> number option" where
  "datum_value (CategoryDatum _ v _) = v"
| "datum_value (NameDatum _ v _) = v"
| "datum_value (MetricDatum _ v _) = v"
| "datum_value (ItemsDatum _ n _) = Some (Fin (of_nat n))"

definition chart_values :: "ChartData \<Rightarrow> number option list" where
  "chart_values c = map datum_value (data c)"

text \<open>
  The label of a chart entry (its \<open>category\<close>, \<open>name\<close> or \<open>metric\<close> property), and the
  values of the entries labelled \<open>l\<close> in the charts titled \<open>t\<close>.
\<close>

fun datum_label :: "datum \<Rightarrow> string" where
  "datum_label (CategoryDatum l _ _) = l"
| "datum_label (NameDatum l _ _) = l"
| "datum_label (MetricDatum l _ _) = l"
| "datum_label (ItemsDatum l _ _) = l"

definition entry_values :: "string \<Rightarrow> string \<Rightarrow> ChartData list \<Rightarrow> number option list" where
  "entry_values t l cs =
     map datum_value
       (filter (\<lambda>d. datum_label d = l) (concat (map data (filter (\<lambda>c. title c = t) cs))))"

text \<open>
  \<open>suffixed_number v num sfx\<close>: the cleaned form of the value \<open>v\<close> (what is left of it without
  dollar signs, commas, percent signs, white space and parentheses) is \<open>num\<close>, which starts
  with a number, followed by the letters \<open>sfx\<close>. \<open>leading_number v num\<close> is that number,
  negated when \<open>v\<close> has both parentheses.
\<close>

definition suffixed_number :: "string \<Rightarrow> string \<Rightarrow> string \<Rightarrow> bool" where
  "suffixed_number v num sfx \<longleftrightarrow>
     numericString v = num @ sfx \<and> list_all is_letter sfx \<and> parseFloat num \<noteq> NaN"

definition leading_number :: "string \<Rightarrow> string \<Rightarrow> number" where
  "leading_number v num =
     (if CHR ''('' \<in> set v \<and> CHR '')'' \<in> set v then num_neg (parseFloat num)
      else parseFloat num)"

text \<open>
  The same for the percentage extractor, whose cleaned form is the value without percent
  signs and white space.
\<close>

definition percentString :: "string \<Rightarrow> string" where
  "percentString value = filter (\<lambda>c. \<not> (c = CHR ''%'' \<or> is_space c)) value"

definition suffixed_percentage :: "string \<Rightarrow> string \<Rightarrow> string \<Rightarrow> bool" where
  "suffixed_percentage v num sfx \<longleftrightarrow>
     percentString v = num @ sfx \<and> list_all is_letter sfx \<and> parseFloat num \<noteq> NaN"

section \<open>File parsing service (FileParsingService)\<close>

record metadata =
  fileName :: string
  fileType :: string
  pageCount :: "nat option"
  sheetCount :: "nat option"
  extractedAt :: int

text \<open>The field \<open>text\<close> of the source is \<open>fileText\<close> here.\<close>

record ParsedFileContent =
  fileText :: string
  metadata :: metadata

text \<open>\<open>s.split(c)\<close> for a one-character separator: never the empty list.\<close>

fun split_on :: "char \<Rightarrow> string \<Rightarrow> string list" where
  "split_on sep [] = [[]]"
| "split_on sep (c # cs) =
     (if c = sep then [] # split_on sep cs
      else (case split_on sep cs of [] \<Rightarrow> [[c]] | l # ls \<Rightarrow> (c # l) # ls))"

text \<open>\<open>xs.join(sep)\<close>.\<close>

fun join :: "string \<Rightarrow> string list \<Rightarrow> string" where
  "join sep [] = []"
| "join sep [x] = x"
| "join sep (x # y # ys) = x @ sep @ join sep (y # ys)"

text \<open>An integer in a template literal, in decimal.\<close>

definition show_int :: "int \<Rightarrow> string" where
  "show_int i = (if i < 0 then CHR ''-'' # show_nat (nat (- i)) else show_nat (nat i))"

text \<open>
  The loop of \<open>parseCSV\<close> over the indices \<open>i, \<dots>, maxRows - 1\<close>, threading the text
  built so far. \<open>maxRows\<close> is at most the number of lines, so every \<open>lines ! i\<close> is in range.
\<close>

function csv_rows :: "string list \<Rightarrow> nat \<Rightarrow> nat \<Rightarrow> string \<Rightarrow> string" where
  "csv_rows lines maxRows i extractedText =
     (if i < maxRows then
        csv_rows lines maxRows (i + 1)
          (if lines ! i \<noteq> [] \<and> trim (lines ! i) \<noteq> []
           then extractedText @ ''Row '' @ show_nat (i + 1) @ '': '' @ trim (lines ! i) @
                  [CHR 0x0A]
           else extractedText)
      else extractedText)"
  by pat_completeness auto
termination
  by (relation "measure (\<lambda>(lines, maxRows, i, extractedText). maxRows - i)") auto

text \<open>
  \<open>parseCSV\<close> on the decoded file content \<open>content\<close>. The time of the call is the
  parameter \<open>now\<close>.
\<close>

definition parseCSV :: "int \<Rightarrow> string \<Rightarrow> string \<Rightarrow> ParsedFileContent" where
  "parseCSV now content name =
     (let lines = filter (\<lambda>line. trim line \<noteq> []) (split_on (CHR 0x0A) content);
          headers = (case lines of [] \<Rightarrow> [] | l # _ \<Rightarrow> map trim (split_on CHR '','' l));
          extractedText =
            ''CSV File: '' @ name @ [CHR 0x0A] @
            ''Headers: '' @ join '' | '' headers @ [CHR 0x0A] @
            ''Total Rows: '' @ show_int (int (length lines) - 1) @ [CHR 0x0A, CHR 0x0A];
          maxRows = min 100 (length lines);
          withRows = csv_rows lines maxRows 0 extractedText;
          final =
            (if length lines > 100
             then withRows @ [CHR 0x0A] @ ''... and '' @ show_nat (length lines - 100) @
                    '' more rows'' @ [CHR 0x0A]
             else withRows)
      in \<lparr>fileText = final,
          metadata = \<lparr>fileName = name, fileType = ''csv'', pageCount = None, sheetCount = None,
                      extractedAt = now\<rparr>\<rparr>)"

text \<open>
  The array \<open>lines\<close> of \<open>parseCSV\<close>: the lines of the content that are not blank, the
  header line first. And the text that the loop appends for the line at index \<open>j\<close>.
\<close>

definition csv_lines :: "string \<Rightarrow> string list" where
  "csv_lines content = filter (\<lambda>line. trim line \<noteq> []) (split_on (CHR 0x0A) content)"

definition csv_row :: "nat \<Rightarrow> string \<Rightarrow> string" where
  "csv_row j line = ''Row '' @ show_nat (j + 1) @ '': '' @ trim line @ [CHR 0x0A]"

text \<open>The lines of an extracted text that begin with \<open>Row\<close> and a space.\<close>

definition row_lines :: "string \<Rightarrow> string list" where
  "row_lines t = filter (prefix ''Row '') (split_on (CHR 0x0A) t)"

section \<open>JSON values and JSON.parse\<close>

text \<open>
  A parsed JSON value. A number is the exact value of its literal. An object is the list
  of its members in the order of the text; a property read takes the last member of the
  name, as a later duplicate overrides an earlier one.
\<close>

datatype json =
    JNull
  | JBool bool
  | JNumber rat
  | JString string
  | JArray "json list"
  | JObject "(string \<times> json) list"

datatype token =
    TLBrace | TRBrace | TLBracket | TRBracket | TColon | TComma
  | TString string | TNumber rat | TTrue | TFalse | TNull

definition is_json_ws :: "char \<Rightarrow> bool" where
  "is_json_ws c \<longleftrightarrow> c = CHR 0x20 \<or> c = CHR 0x09 \<or> c = CHR 0x0A \<or> c = CHR 0x0D"

definition hex_val :: "char \<Rightarrow> nat option" where
  "hex_val c = map_of (zip ''0123456789abcdefABCDEF''
     [0, 1, 2, 3, 4, 5, 6, 7, 8, 9, 10, 11, 12, 13, 14, 15, 10, 11, 12, 13, 14, 15]) c"

definition hex4 :: "char \<Rightarrow> char \<Rightarrow> char \<Rightarrow> char \<Rightarrow> nat option" where
  "hex4 a b c d =
     (case (hex_val a, hex_val b, hex_val c, hex_val d) of
        (Some w, Some x, Some y, Some z) \<Rightarrow> Some (4096 * w + 256 * x + 16 * y + z)
      | _ \<Rightarrow> None)"

text \<open>The character with code \<open>n\<close>, for \<open>n < 256\<close>.\<close>

definition byte_char :: "nat \<Rightarrow> char" where
  "byte_char n =
     Char (odd n) (odd (n div 2)) (odd (n div 4)) (odd (n div 8))
       (odd (n div 16)) (odd (n div 32)) (odd (n div 64)) (odd (n div 128))"

definition escape_char :: "char \<Rightarrow> char option" where
  "escape_char e =
     map_of [(CHR 0x22, CHR 0x22), (CHR 0x5C, CHR 0x5C), (CHR ''/'', CHR ''/''),
             (CHR ''b'', CHR 0x08), (CHR ''f'', CHR 0x0C), (CHR ''n'', CHR 0x0A),
             (CHR ''r'', CHR 0x0D), (CHR ''t'', CHR 0x09)] e"

text \<open>
  The rest of a string literal, after its opening quote: the decoded characters and what
  follows the closing quote. A control character, an unknown escape or a missing closing
  quote is an error. A \<open>\u\<close> escape above \<open>00FF\<close> denotes a code unit outside the modelled
  range of characters; the model rejects it.
\<close>

fun lex_string :: "string \<Rightarrow> (string \<times> string) option" where
  "lex_string [] = None"
| "lex_string [c] = (if c = CHR 0x22 then Some ([], []) else None)"
| "lex_string (c # e # cs) =
     (if c = CHR 0x22 then Some ([], e # cs)
      else if c = CHR 0x5C then
        (if e = CHR ''u'' then
           (if length cs < 4 then None
            else
              (case hex4 (cs ! 0) (cs ! 1) (cs ! 2) (cs ! 3) of
                 None \<Rightarrow> None
               | Some n \<Rightarrow>
                   if n < 256 then
                     (case lex_string (drop 4 cs) of
                        None \<Rightarrow> None
                      | Some (s, r') \<Rightarrow> Some (byte_char n # s, r'))
                   else None))
         else
           (case escape_char e of
              None \<Rightarrow> None
            | Some x \<Rightarrow>
                (case lex_string cs of
                   None \<Rightarrow> None
                 | Some (s, r') \<Rightarrow> Some (x # s, r'))))
      else if (of_char c :: nat) < 32 then None
      else
        (case lex_string (e # cs) of
           None \<Rightarrow> None
         | Some (s, r') \<Rightarrow> Some (c # s, r')))"

text \<open>
  A number literal at the head of the input: an optional minus sign, an integer part without
  a superfluous leading zero, an optional fraction and an optional exponent, each with at
  least one digit. Each part returns what it read and the rest of the input.
\<close>

definition lex_int :: "string \<Rightarrow> (string \<times> string) option" where
  "lex_int s =
     (if takeWhile is_digit s = [] \<or>
         (hd (takeWhile is_digit s) = CHR ''0'' \<and> length (takeWhile is_digit s) > 1)
      then None
      else Some (takeWhile is_digit s, dropWhile is_digit s))"

definition lex_frac :: "string \<Rightarrow> (string \<times> string) option" where
  "lex_frac s =
     (if s \<noteq> [] \<and> hd s = CHR ''.'' then
        (if takeWhile is_digit (tl s) = [] then None
         else Some (takeWhile is_digit (tl s), dropWhile is_digit (tl s)))
      else Some ([], s))"

definition lex_exp :: "string \<Rightarrow> (int \<times> string) option" where
  "lex_exp s =
     (if s \<noteq> [] \<and> (hd s = CHR ''e'' \<or> hd s = CHR ''E'') then
        (if takeWhile is_digit (snd (strip_sign (tl s))) = [] then None
         else Some (fst (strip_sign (tl s)) *
                      int (digits_val (takeWhile is_digit (snd (strip_sign (tl s))))),
                    dropWhile is_digit (snd (strip_sign (tl s)))))
      else Some (0, s))"

definition lex_number :: "string \<Rightarrow> (rat \<times> string) option" where
  "lex_number s =
     (let neg = (s \<noteq> [] \<and> hd s = CHR ''-'')
      in case lex_int (if neg then tl s else s) of
           None \<Rightarrow> None
         | Some (ip, r1) \<Rightarrow>
             (case lex_frac r1 of
                None \<Rightarrow> None
              | Some (fp, r2) \<Rightarrow>
                  (case lex_exp r2 of
                     None \<Rightarrow> None
                   | Some (ex, r3) \<Rightarrow>
                       Some ((if neg then - 1 else 1) * of_nat (digits_val (ip @ fp)) *
                               pow10 (ex - int (length fp)), r3))))"

text \<open>The token at the head of a non-empty input that does not start with white space.\<close>

definition next_token :: "string \<Rightarrow> (token \<times> string) option" where
  "next_token s =
     (case s of
        [] \<Rightarrow> None
      | c # cs \<Rightarrow>
          if c = CHR ''{'' then Some (TLBrace, cs)
          else if c = CHR ''}'' then Some (TRBrace, cs)
          else if c = CHR ''['' then Some (TLBracket, cs)
          else if c = CHR '']'' then Some (TRBracket, cs)
          else if c = CHR '':'' then Some (TColon, cs)
          else if c = CHR '','' then Some (TComma, cs)
          else if c = CHR 0x22 then
            (case lex_string cs of None \<Rightarrow> None | Some (str, r) \<Rightarrow> Some (TString str, r))
          else if c = CHR ''-'' \<or> is_digit c then
            (case lex_number s of None \<Rightarrow> None | Some (v, r) \<Rightarrow> Some (TNumber v, r))
          else if prefix ''true'' s then Some (TTrue, drop 4 s)
          else if prefix ''false'' s then Some (TFalse, drop 5 s)
          else if prefix ''null'' s then Some (TNull, drop 4 s)
          else None)"

lemma lex_string_shorter: "lex_string s = Some (str, r) \<Longrightarrow> length r < Suc (length s)"
proof (induction s arbitrary: str rule: lex_string.induct)
  case 1
  then show ?case by simp
next
  case (2 c)
  then show ?case by (simp split: if_splits)
next
  case (3 c e cs)
  show ?case
  proof (cases "c = CHR 0x22")
    case True
    with 3(4) show ?thesis by simp
  next
    case q: False
    show ?thesis
    proof (cases "c = CHR 0x5C")
      case b: True
      show ?thesis
      proof (cases "e = CHR ''u''")
        case True
        with q b 3(4) obtain n s0 where
          cs: "\<not> length cs < 4" and h: "hex4 (cs ! 0) (cs ! 1) (cs ! 2) (cs ! 3) = Some n"
          and n: "n < 256" and l: "lex_string (drop 4 cs) = Some (s0, r)"
          by (auto split: option.splits if_splits prod.splits)
        from "3.IH"(1) [OF q b True cs h n l] cs show ?thesis by simp
      next
        case False
        with q b 3(4) obtain x s0 where x: "escape_char e = Some x"
          and l: "lex_string cs = Some (s0, r)"
          by (auto split: option.splits prod.splits)
        from "3.IH"(2) [OF q b False x l] show ?thesis by simp
      qed
    next
      case nb: False
      with q 3(4) obtain s0 where c: "\<not> (of_char c :: nat) < 32"
        and l: "lex_string (e # cs) = Some (s0, r)"
        by (auto split: option.splits prod.splits if_splits)
      from "3.IH"(3) [OF q nb c l] show ?thesis by simp
    qed
  qed
qed

lemma strip_sign_length: "length (snd (strip_sign s)) \<le> length s"
  by (cases s) auto

lemma lex_int_shorter: "lex_int s = Some (ip, r) \<Longrightarrow> length r < length s"
proof -
  assume a: "lex_int s = Some (ip, r)"
  then have ip: "takeWhile is_digit s \<noteq> []" and r: "r = dropWhile is_digit s"
    unfolding lex_int_def by (simp_all split: if_splits)
  have "length s = length (takeWhile is_digit s) + length (dropWhile is_digit s)"
    by (metis length_append takeWhile_dropWhile_id)
  with ip r show ?thesis by (cases "takeWhile is_digit s") simp_all
qed

lemma lex_frac_shorter: "lex_frac s = Some (fp, r) \<Longrightarrow> length r \<le> length s"
  unfolding lex_frac_def
  using length_dropWhile_le [of is_digit "tl s"]
  by (cases s) (auto split: if_splits)

lemma lex_exp_shorter: "lex_exp s = Some (ex, r) \<Longrightarrow> length r \<le> length s"
proof -
  assume a: "lex_exp s = Some (ex, r)"
  have "length (dropWhile is_digit (snd (strip_sign (tl s)))) \<le> length (tl s)"
    using length_dropWhile_le [of is_digit "snd (strip_sign (tl s))"]
      strip_sign_length [of "tl s"] by simp
  then have "length (dropWhile is_digit (snd (strip_sign (tl s)))) \<le> length s" by simp
  with a show ?thesis unfolding lex_exp_def by (simp split: if_splits)
qed

lemma lex_number_shorter:
  assumes "lex_number s = Some (v, r)"
  shows "length r < length s"
proof -
  define s1 where "s1 = (if s \<noteq> [] \<and> hd s = CHR ''-'' then tl s else s)"
  from assms obtain ip r1 fp r2 ex where
    i: "lex_int s1 = Some (ip, r1)" and f: "lex_frac r1 = Some (fp, r2)"
    and e: "lex_exp r2 = Some (ex, r)"
    unfolding lex_number_def Let_def s1_def [symmetric]
    by (simp split: option.splits prod.splits)
  have "length s1 \<le> length s" unfolding s1_def by simp
  with lex_int_shorter [OF i] lex_frac_shorter [OF f] lex_exp_shorter [OF e]
  show ?thesis by simp
qed

lemma next_token_shorter:
  assumes "next_token s = Some (t, r)"
  shows "length r < length s"
proof (cases s)
  case Nil
  with assms show ?thesis by (simp add: next_token_def)
next
  case (Cons c cs)
  with assms have "r = cs \<or> (\<exists>str. lex_string cs = Some (str, r)) \<or>
      (\<exists>v. lex_number s = Some (v, r)) \<or> r = drop 3 cs \<or> r = drop 4 cs"
    unfolding next_token_def
    by (auto split: if_splits option.splits prod.splits)
  then consider (punct) "r = cs"
    | (str) str where "lex_string cs = Some (str, r)"
    | (num) v where "lex_number s = Some (v, r)"
    | (lit) "r = drop 3 cs \<or> r = drop 4 cs"
    by blast
  then show ?thesis
  proof cases
    case punct
    with Cons show ?thesis by simp
  next
    case str
    from lex_string_shorter [OF this] Cons show ?thesis by simp
  next
    case num
    from lex_number_shorter [OF this] show ?thesis .
  next
    case lit
    with Cons show ?thesis by auto
  qed
qed

text \<open>The tokens of a text; \<open>None\<close> if some part of it is not a token.\<close>

function tokenize :: "string \<Rightarrow> token list option" where
  "tokenize s =
     (if dropWhile is_json_ws s = [] then Some []
      else
        (case next_token (dropWhile is_json_ws s) of
           None \<Rightarrow> None
         | Some (t, r) \<Rightarrow> (case tokenize r of None \<Rightarrow> None | Some ts \<Rightarrow> Some (t # ts))))"
  by pat_completeness auto
termination
proof (relation "measure length")
  show "wf (measure length)" by simp
next
  fix s :: string and x2 t r
  assume "dropWhile is_json_ws s \<noteq> []"
    and "next_token (dropWhile is_json_ws s) = Some x2" and "(t, r) = x2"
  then have "length r < length (dropWhile is_json_ws s)"
    using next_token_shorter [of "dropWhile is_json_ws s" t r] by simp
  also have "\<dots> \<le> length s" by (rule length_dropWhile_le)
  finally show "(r, s) \<in> measure length" by simp
qed

text \<open>
  The parser runs over the tokens with a stack of the arrays and objects that are open.
  \<open>FArr\<close> holds the elements read so far, \<open>FObj\<close> the members read so far, and \<open>FKey\<close>,
  on top of an \<open>FObj\<close>, the name whose value is being read.
\<close>

datatype frame = FArr "json list" | FObj "(string \<times> json) list" | FKey string

datatype mode =
    MValue      \<comment> \<open>a value must follow\<close>
  | MArrFirst   \<comment> \<open>after \<open>[\<close>: a value or \<open>]\<close>\<close>
  | MObjFirst   \<comment> \<open>after \<open>{\<close>: a name or \<open>}\<close>\<close>
  | MKey        \<comment> \<open>after a comma in an object: a name\<close>
  | MColon      \<comment> \<open>after a name: a colon\<close>
  | MAfter      \<comment> \<open>after a value inside an array or object: a comma or the closing bracket\<close>
  | MDone json  \<comment> \<open>the top-level value is complete\<close>

text \<open>
  The value \<open>v\<close> has been read to its end: it is the result, or goes into the innermost
  open container.
\<close>

fun complete_value :: "json \<Rightarrow> frame list \<Rightarrow> (mode \<times> frame list) option" where
  "complete_value v [] = Some (MDone v, [])"
| "complete_value v (FArr es # st) = Some (MAfter, FArr (es @ [v]) # st)"
| "complete_value v (FKey k # FObj ms # st) = Some (MAfter, FObj (ms @ [(k, v)]) # st)"
| "complete_value v _ = None"

fun value_start :: "token \<Rightarrow> frame list \<Rightarrow> (mode \<times> frame list) option" where
  "value_start (TString s) st = complete_value (JString s) st"
| "value_start (TNumber n) st = complete_value (JNumber n) st"
| "value_start TTrue st = complete_value (JBool True) st"
| "value_start TFalse st = complete_value (JBool False) st"
| "value_start TNull st = complete_value JNull st"
| "value_start TLBracket st = Some (MArrFirst, FArr [] # st)"
| "value_start TLBrace st = Some (MObjFirst, FObj [] # st)"
| "value_start _ st = None"

fun step :: "mode \<times> frame list \<Rightarrow> token \<Rightarrow> (mode \<times> frame list) option" where
  "step (MValue, st) t = value_start t st"
| "step (MArrFirst, FArr es # st) TRBracket = complete_value (JArray es) st"
| "step (MArrFirst, st) t = value_start t st"
| "step (MObjFirst, FObj ms # st) TRBrace = complete_value (JObject ms) st"
| "step (MObjFirst, st) (TString k) = Some (MColon, FKey k # st)"
| "step (MKey, st) (TString k) = Some (MColon, FKey k # st)"
| "step (MColon, st) TColon = Some (MValue, st)"
| "step (MAfter, FArr es # st) TComma = Some (MValue, FArr es # st)"
| "step (MAfter, FArr es # st) TRBracket = complete_value (JArray es) st"
| "step (MAfter, FObj ms # st) TComma = Some (MKey, FObj ms # st)"
| "step (MAfter, FObj ms # st) TRBrace = complete_value (JObject ms) st"
| "step _ _ = None"

fun run :: "mode \<times> frame list \<Rightarrow> token list \<Rightarrow> (mode \<times> frame list) option" where
  "run s [] = Some s"
| "run s (t # ts) = (case step s t of None \<Rightarrow> None | Some s' \<Rightarrow> run s' ts)"

text \<open>\<open>JSON.parse\<close>: the value of a JSON text, or \<open>None\<close> where it throws a SyntaxError.\<close>

definition JSON_parse :: "string \<Rightarrow> json option" where
  "JSON_parse s =
     (case tokenize s of
        None \<Rightarrow> None
      | Some ts \<Rightarrow>
          (case run (MValue, []) ts of
             Some (MDone v, _) \<Rightarrow> Some v
           | _ \<Rightarrow> None))"

subsection \<open>Reading parsed values\<close>

text \<open>
  A property read \<open>v.k\<close> on a value other than \<open>null\<close>, with \<open>None\<close> for \<open>undefined\<close>.
  It is used with the property names of the analysis result only, none of which is a
  built-in property of a string, number, boolean or array: on those the read is
  \<open>undefined\<close>.
\<close>

fun get_prop :: "json \<Rightarrow> string \<Rightarrow> json option" where
  "get_prop (JObject ms) k = map_of (rev ms) k"
| "get_prop _ k = None"

text \<open>Optional chaining \<open>v?.k\<close>: \<open>undefined\<close> when \<open>v\<close> is \<open>undefined\<close> or \<open>null\<close>.\<close>

fun opt_chain :: "json option \<Rightarrow> string \<Rightarrow> json option" where
  "opt_chain None k = None"
| "opt_chain (Some JNull) k = None"
| "opt_chain (Some v) k = get_prop v k"

fun truthy :: "json \<Rightarrow> bool" where
  "truthy JNull = False"
| "truthy (JBool b) = b"
| "truthy (JNumber n) = (n \<noteq> 0)"
| "truthy (JString s) = (s \<noteq> [])"
| "truthy (JArray _) = True"
| "truthy (JObject _) = True"

text \<open>\<open>x || d\<close>.\<close>

fun or_else :: "json option \<Rightarrow> json \<Rightarrow> json" where
  "or_else None d = d"
| "or_else (Some v) d = (if truthy v then v else d)"

text \<open>\<open>Array.isArray(x) ? x : []\<close>.\<close>

fun array_or_empty :: "json option \<Rightarrow> json list" where
  "array_or_empty (Some (JArray xs)) = xs"
| "array_or_empty _ = []"

section \<open>Response parser (src/lib/gemini.ts, parseAnalysisResponse)\<close>

text \<open>
  The result of the parser. Its fields are declared as strings and lists of strings, but they
  hold whatever the parsed JSON holds, so they are JSON values here. The fields are prefixed
  (\<open>res_\<close>, \<open>raw_\<close>) to keep them apart from those of the records \<open>Analysis\<close> and \<open>KPIs\<close>.
\<close>

record RawKPIs =
  raw_revenue :: json
  raw_expenses :: json
  raw_netProfit :: json
  raw_growthRate :: json
  raw_totalAssets :: json
  raw_totalLiabilities :: json
  raw_cashFlow :: json
  raw_debtToEquityRatio :: json
  raw_returnOnInvestment :: json
  raw_profitMargin :: json

record AnalysisResult =
  res_summary :: json
  res_kpis :: RawKPIs
  res_risks :: "json list"
  res_opportunities :: "json list"
  res_recommendations :: "json list"

text \<open>
  The match of the regular expression \<open>\{[\s\S]*\}\<close>: from the first opening brace to the
  last closing brace after it, if there is one.
\<close>

definition extract_json :: "string \<Rightarrow> string option" where
  "extract_json s =
     (let r = dropWhile (\<lambda>c. c \<noteq> CHR ''{'') s
      in if CHR ''}'' \<in> set r then Some (rev (dropWhile (\<lambda>c. c \<noteq> CHR ''}'') (rev r)))
         else None)"

definition fallbackResult :: AnalysisResult where
  "fallbackResult =
     \<lparr>res_summary =
        JString ''Unable to generate detailed analysis. Please try again or contact support.'',
      res_kpis =
        \<lparr>raw_revenue = JString ''N/A'', raw_expenses = JString ''N/A'',
         raw_netProfit = JString ''N/A'', raw_growthRate = JString ''N/A'',
         raw_totalAssets = JString ''N/A'', raw_totalLiabilities = JString ''N/A'',
         raw_cashFlow = JString ''N/A'', raw_debtToEquityRatio = JString ''N/A'',
         raw_returnOnInvestment = JString ''N/A'', raw_profitMargin = JString ''N/A''\<rparr>,
      res_risks = [JString ''Analysis unavailable - please review the report manually''],
      res_opportunities = [JString ''Analysis unavailable - please review the report manually''],
      res_recommendations =
        [JString ''Analysis unavailable - please review the report manually'']\<rparr>"

text \<open>The object literal that the \<open>try\<close> block returns for a parsed value.\<close>

definition normalizeParsed :: "json \<Rightarrow> AnalysisResult" where
  "normalizeParsed parsed =
     \<lparr>res_summary =
        or_else (get_prop parsed ''summary'') (JString ''Analysis summary not available''),
      res_kpis =
        \<lparr>raw_revenue = or_else (opt_chain (get_prop parsed ''kpis'') ''revenue'') (JString ''N/A''),
         raw_expenses = or_else (opt_chain (get_prop parsed ''kpis'') ''expenses'') (JString ''N/A''),
         raw_netProfit =
           or_else (opt_chain (get_prop parsed ''kpis'') ''netProfit'') (JString ''N/A''),
         raw_growthRate =
           or_else (opt_chain (get_prop parsed ''kpis'') ''growthRate'') (JString ''N/A''),
         raw_totalAssets =
           or_else (opt_chain (get_prop parsed ''kpis'') ''totalAssets'') (JString ''N/A''),
         raw_totalLiabilities =
           or_else (opt_chain (get_prop parsed ''kpis'') ''totalLiabilities'') (JString ''N/A''),
         raw_cashFlow = or_else (opt_chain (get_prop parsed ''kpis'') ''cashFlow'') (JString ''N/A''),
         raw_debtToEquityRatio =
           or_else (opt_chain (get_prop parsed ''kpis'') ''debtToEquityRatio'') (JString ''N/A''),
         raw_returnOnInvestment =
           or_else (opt_chain (get_prop parsed ''kpis'') ''returnOnInvestment'') (JString ''N/A''),
         raw_profitMargin =
           or_else (opt_chain (get_prop parsed ''kpis'') ''profitMargin'') (JString ''N/A'')\<rparr>,
      res_risks = array_or_empty (get_prop parsed ''risks''),
      res_opportunities = array_or_empty (get_prop parsed ''opportunities''),
      res_recommendations = array_or_empty (get_prop parsed ''recommendations'')\<rparr>"

text \<open>
  \<open>parseAnalysisResponse\<close>. An exception in the \<open>try\<close> block (no match, a SyntaxError of
  \<open>JSON.parse\<close>, or the TypeError of a property read on \<open>null\<close>) is caught and gives the
  fallback result.
\<close>

definition parseAnalysisResponse :: "string \<Rightarrow> AnalysisResult" where
  "parseAnalysisResponse response =
     (case extract_json response of
        None \<Rightarrow> fallbackResult
      | Some jsonStr \<Rightarrow>
          (case JSON_parse jsonStr of
             None \<Rightarrow> fallbackResult
           | Some JNull \<Rightarrow> fallbackResult
           | Some parsed \<Rightarrow> normalizeParsed parsed))"

text \<open>The ten KPI fields of a result, and their names, in the order of the interface.\<close>

definition kpi_values :: "RawKPIs \<Rightarrow> json list" where
  "kpi_values k =
     [raw_revenue k, raw_expenses k, raw_netProfit k, raw_growthRate k, raw_totalAssets k,
      raw_totalLiabilities k, raw_cashFlow k, raw_debtToEquityRatio k,
      raw_returnOnInvestment k, raw_profitMargin k]"

definition kpi_names :: "string list" where
  "kpi_names =
     [''revenue'', ''expenses'', ''netProfit'', ''growthRate'', ''totalAssets'',
      ''totalLiabilities'', ''cashFlow'', ''debtToEquityRatio'', ''returnOnInvestment'',
      ''profitMargin'']"

fun is_string :: "json \<Rightarrow> bool" where
  "is_string (JString _) = True"
| "is_string _ = False"

section \<open>Example inputs\<close>

text \<open>A small analysis record, used to instantiate the theorems below at concrete inputs.\<close>

definition example_kpis :: KPIs where
  "example_kpis =
     \<lparr>revenue = ''$1.2M'', expenses = ''$800,000'', netProfit = ''$400,000'',
      growthRate = ''15%'', totalAssets = Some ''$500'', totalLiabilities = Some ''$200'',
      cashFlow = Some ''N/A'', debtToEquityRatio = Some ''0.4'',
      returnOnInvestment = None, profitMargin = Some ''33%''\<rparr>"

definition example_analysis :: Analysis where
  "example_analysis =
     \<lparr>analysis_id = ''a1'', fileId = ''f1'', summary = ''S'', kpis = example_kpis,
      risks = [''a''], opportunities = [], recommendations = [''b''],
      createdAt = 0, updatedAt = 0\<rparr>"

text \<open>An analysis whose KPI values all carry a suffix of letters.\<close>

definition example_suffixed_kpis :: KPIs where
  "example_suffixed_kpis =
     \<lparr>revenue = ''$1.2M'', expenses = ''$800K'', netProfit = ''($400K)'',
      growthRate = ''15% YoY'', totalAssets = Some ''$5M'', totalLiabilities = Some ''$2M'',
      cashFlow = Some ''$3K'', debtToEquityRatio = Some ''1.2x'',
      returnOnInvestment = Some ''7% pa'', profitMargin = Some ''33% net''\<rparr>"

definition example_suffixed :: Analysis where
  "example_suffixed =
     \<lparr>analysis_id = ''a2'', fileId = ''f2'', summary = ''S'', kpis = example_suffixed_kpis,
      risks = [''a''], opportunities = [], recommendations = [''b''],
      createdAt = 0, updatedAt = 0\<rparr>"

text \<open>
  A model response: prose around a JSON object with summary \<open>S\<close>, all ten KPI fields, one
  risk, no opportunity and one recommendation. \<open>example_json\<close> is the object alone.
\<close>

definition example_json :: string where
  \<open>example_json =
     ''{"summary":"S","kpis":{"revenue":"$1M","expenses":"$2M","netProfit":"($1M)",'' @
     ''"growthRate":"15%","totalAssets":"N/A","totalLiabilities":"N/A","cashFlow":"$3",'' @
     ''"debtToEquityRatio":"0.4","returnOnInvestment":"7%","profitMargin":"12%"},'' @
     ''"risks":["a"],"opportunities":[],"recommendations":["b"]}''\<close>

text \<open>The value of that object, with the value of \<open>expenses\<close> as a parameter.\<close>

definition example_kpis_json :: "string \<Rightarrow> json" where
  "example_kpis_json e =
     JObject
       [(''revenue'', JString ''$1M''), (''expenses'', JString e),
        (''netProfit'', JString ''($1M)''), (''growthRate'', JString ''15%''),
        (''totalAssets'', JString ''N/A''), (''totalLiabilities'', JString ''N/A''),
        (''cashFlow'', JString ''$3''), (''debtToEquityRatio'', JString ''0.4''),
        (''returnOnInvestment'', JString ''7%''), (''profitMargin'', JString ''12%'')]"

definition example_parsed_with :: "string \<Rightarrow> json" where
  "example_parsed_with e =
     JObject
       [(''summary'', JString ''S''),
        (''kpis'', example_kpis_json e),
        (''risks'', JArray [JString ''a'']),
        (''opportunities'', JArray []),
        (''recommendations'', JArray [JString ''b''])]"

definition example_parsed :: json where
  "example_parsed = example_parsed_with ''$2M''"

definition example_values :: "string list" where
  "example_values =
     [''$1M'', ''$2M'', ''($1M)'', ''15%'', ''N/A'', ''N/A'', ''$3'', ''0.4'', ''7%'', ''12%'']"

definition example_response :: string where
  "example_response = ''Here is the analysis: '' @ example_json @ '' Done.''"

text \<open>The same object with an empty string as the value of \<open>expenses\<close>.\<close>

definition example_json_empty :: string where
  \<open>example_json_empty =
     ''{"summary":"S","kpis":{"revenue":"$1M","expenses":"","netProfit":"($1M)",'' @
     ''"growthRate":"15%","totalAssets":"N/A","totalLiabilities":"N/A","cashFlow":"$3",'' @
     ''"debtToEquityRatio":"0.4","returnOnInvestment":"7%","profitMargin":"12%"},'' @
     ''"risks":["a"],"opportunities":[],"recommendations":["b"]}''\<close>

section \<open>Properties of the content validator\<close>

lemma dropWhile_all_imp_Nil: "(\<forall>x\<in>set (dropWhile P xs). P x) \<Longrightarrow> dropWhile P xs = []"
proof (rule ccontr)
  assume a: "\<forall>x\<in>set (dropWhile P xs). P x" and n: "dropWhile P xs \<noteq> []"
  from n have "\<not> P (hd (dropWhile P xs))" by (rule hd_dropWhile)
  moreover from n have "hd (dropWhile P xs) \<in> set (dropWhile P xs)" by (rule hd_in_set)
  ultimately show False using a by blast
qed

lemma all_dropWhile_iff: "(\<forall>x\<in>set (dropWhile P xs). P x) \<longleftrightarrow> (\<forall>x\<in>set xs. P x)"
proof
  assume "\<forall>x\<in>set (dropWhile P xs). P x"
  then have "dropWhile P xs = []" by (rule dropWhile_all_imp_Nil)
  then show "\<forall>x\<in>set xs. P x" by (simp only: dropWhile_eq_Nil_conv)
next
  assume "\<forall>x\<in>set xs. P x"
  then show "\<forall>x\<in>set (dropWhile P xs). P x" by (meson set_dropWhileD)
qed

lemma trim_empty_iff: "trim s = [] \<longleftrightarrow> (\<forall>c\<in>set s. is_space c)"
  unfolding trim_def by (simp only: rev_is_Nil_conv dropWhile_eq_Nil_conv set_rev all_dropWhile_iff)

lemma validateContent_blank:
  assumes "\<forall>c\<in>set s. is_space c"
  shows "validateContent s = \<lparr>isValid = False, error = Some ''Content is empty''\<rparr>"
proof -
  have "trim s = []" using assms by (simp only: trim_empty_iff)
  then show ?thesis unfolding validateContent_def by simp
qed

lemma validateContent_nonblank:
  assumes "\<not> (\<forall>c\<in>set s. is_space c)"
  shows "validateContent s =
     (if length s < 100 then
        \<lparr>isValid = False, error = Some ''Content too short for meaningful analysis''\<rparr>
      else if length s > 100000 then
        \<lparr>isValid = False, error = Some ''Content too long - please upload a smaller file''\<rparr>
      else \<lparr>isValid = True, error = None\<rparr>)"
proof -
  have "trim s \<noteq> []" using assms by (simp only: trim_empty_iff not_False_eq_True)
  moreover have "s \<noteq> []" using assms by auto
  ultimately show ?thesis unfolding validateContent_def by simp
qed

lemma replicate_x_nonblank: "0 < n \<Longrightarrow> \<not> (\<forall>c\<in>set (replicate n CHR ''x''). is_space c)"
  by (simp add: is_space_def)

text \<open>
  C3 (as amended). The validator reports \<open>Content is empty\<close> for every input that consists
  of white space only (the empty string included), whatever its length. For an input with at
  least one other character it reports \<open>Content too short\<close> below 100 code units,
  \<open>Content too long\<close> above 100000 code units, and succeeds in between. In particular it
  rejects \<open>""\<close> and three spaces as empty, \<open>x\<close> repeated 99 times as too short and
  \<open>x\<close> repeated 100001 times as too long, and accepts \<open>x\<close> repeated 100 times.
\<close>

theorem validateContent_cases:
  "((\<forall>c\<in>set s. is_space c) \<longrightarrow>
      validateContent s = \<lparr>isValid = False, error = Some ''Content is empty''\<rparr>) \<and>
   (\<not> (\<forall>c\<in>set s. is_space c) \<and> length s < 100 \<longrightarrow>
      validateContent s =
        \<lparr>isValid = False, error = Some ''Content too short for meaningful analysis''\<rparr>) \<and>
   (\<not> (\<forall>c\<in>set s. is_space c) \<and> 100000 < length s \<longrightarrow>
      validateContent s =
        \<lparr>isValid = False, error = Some ''Content too long - please upload a smaller file''\<rparr>) \<and>
   (\<not> (\<forall>c\<in>set s. is_space c) \<and> 100 \<le> length s \<and> length s \<le> 100000 \<longrightarrow>
      validateContent s = \<lparr>isValid = True, error = None\<rparr>) \<and>
   validateContent [] = \<lparr>isValid = False, error = Some ''Content is empty''\<rparr> \<and>
   validateContent ''   '' = \<lparr>isValid = False, error = Some ''Content is empty''\<rparr> \<and>
   validateContent (replicate 99 CHR ''x'') =
     \<lparr>isValid = False, error = Some ''Content too short for meaningful analysis''\<rparr> \<and>
   validateContent (replicate 100 CHR ''x'') = \<lparr>isValid = True, error = None\<rparr> \<and>
   validateContent (replicate 100001 CHR ''x'') =
     \<lparr>isValid = False, error = Some ''Content too long - please upload a smaller file''\<rparr>"
proof -
  have e1: "validateContent [] = \<lparr>isValid = False, error = Some ''Content is empty''\<rparr>"
    by (rule validateContent_blank) simp
  have e2: "validateContent ''   '' = \<lparr>isValid = False, error = Some ''Content is empty''\<rparr>"
    by (rule validateContent_blank) (simp add: is_space_def)
  have e3: "validateContent (replicate 99 CHR ''x'') =
      \<lparr>isValid = False, error = Some ''Content too short for meaningful analysis''\<rparr>"
    using validateContent_nonblank [OF replicate_x_nonblank, of 99] by simp
  have e4: "validateContent (replicate 100 CHR ''x'') = \<lparr>isValid = True, error = None\<rparr>"
    using validateContent_nonblank [OF replicate_x_nonblank, of 100] by simp
  have e5: "validateContent (replicate 100001 CHR ''x'') =
      \<lparr>isValid = False, error = Some ''Content too long - please upload a smaller file''\<rparr>"
    using validateContent_nonblank [OF replicate_x_nonblank, of 100001] by simp
  have g1: "(\<forall>c\<in>set s. is_space c) \<longrightarrow>
      validateContent s = \<lparr>isValid = False, error = Some ''Content is empty''\<rparr>"
    using validateContent_blank by blast
  have g2: "\<not> (\<forall>c\<in>set s. is_space c) \<and> length s < 100 \<longrightarrow>
      validateContent s =
        \<lparr>isValid = False, error = Some ''Content too short for meaningful analysis''\<rparr>"
    using validateContent_nonblank [of s] by simp
  have g3: "\<not> (\<forall>c\<in>set s. is_space c) \<and> 100000 < length s \<longrightarrow>
      validateContent s =
        \<lparr>isValid = False, error = Some ''Content too long - please upload a smaller file''\<rparr>"
    using validateContent_nonblank [of s] by simp
  have g4: "\<not> (\<forall>c\<in>set s. is_space c) \<and> 100 \<le> length s \<and> length s \<le> 100000 \<longrightarrow>
      validateContent s = \<lparr>isValid = True, error = None\<rparr>"
    using validateContent_nonblank [of s] by simp
  from g1 g2 g3 g4 e1 e2 e3 e4 e5 show ?thesis by (intro conjI)
qed

theorem validateContent_cases_witness:
  "list_all is_space ''   '' \<and>
   validateContent ''   '' = \<lparr>isValid = False, error = Some ''Content is empty''\<rparr> \<and>
   \<not> (\<forall>c\<in>set (replicate 99 CHR ''x''). is_space c) \<and> length (replicate 99 CHR ''x'') < 100 \<and>
   validateContent (replicate 99 CHR ''x'') =
     \<lparr>isValid = False, error = Some ''Content too short for meaningful analysis''\<rparr> \<and>
   \<not> (\<forall>c\<in>set (replicate 100001 CHR ''x''). is_space c) \<and>
   100000 < length (replicate 100001 CHR ''x'') \<and>
   validateContent (replicate 100001 CHR ''x'') =
     \<lparr>isValid = False, error = Some ''Content too long - please upload a smaller file''\<rparr> \<and>
   \<not> (\<forall>c\<in>set (replicate 100 CHR ''x''). is_space c) \<and>
   100 \<le> length (replicate 100 CHR ''x'') \<and> length (replicate 100 CHR ''x'') \<le> 100000 \<and>
   validateContent (replicate 100 CHR ''x'') = \<lparr>isValid = True, error = None\<rparr>"
proof -
  have b: "\<forall>c\<in>set ''   ''. is_space c" by (simp add: is_space_def)
  have n99: "\<not> (\<forall>c\<in>set (replicate 99 CHR ''x''). is_space c)"
    by (rule replicate_x_nonblank) simp
  have n100: "\<not> (\<forall>c\<in>set (replicate 100 CHR ''x''). is_space c)"
    by (rule replicate_x_nonblank) simp
  have nbig: "\<not> (\<forall>c\<in>set (replicate 100001 CHR ''x''). is_space c)"
    by (rule replicate_x_nonblank) simp
  have l99: "length (replicate 99 CHR ''x'') < 100" by simp
  have l100: "100 \<le> length (replicate 100 CHR ''x'') \<and> length (replicate 100 CHR ''x'') \<le> 100000"
    by simp
  have lbig: "100000 < length (replicate 100001 CHR ''x'')" by simp
  from b n99 n100 nbig l99 l100 lbig show ?thesis
    unfolding list_all_iff
    using validateContent_cases [of "''   ''"]
      validateContent_cases [of "replicate 99 CHR ''x''"]
      validateContent_cases [of "replicate 100 CHR ''x''"]
      validateContent_cases [of "replicate 100001 CHR ''x''"]
    by blast
qed

text \<open>
  C3 as stated fails: an input of 100001 spaces is longer than 100000 code units, yet the
  validator reports it as empty, not as too long.
\<close>

theorem validateContent_long_blank_counterexample:
  "100000 < length (replicate 100001 CHR '' '') \<and>
   validateContent (replicate 100001 CHR '' '') =
     \<lparr>isValid = False, error = Some ''Content is empty''\<rparr> \<and>
   validateContent (replicate 100001 CHR '' '') \<noteq>
     \<lparr>isValid = False, error = Some ''Content too long - please upload a smaller file''\<rparr>"
proof -
  have "\<forall>c\<in>set (replicate 100001 CHR '' ''). is_space c" by (simp add: is_space_def)
  then have "validateContent (replicate 100001 CHR '' '') =
     \<lparr>isValid = False, error = Some ''Content is empty''\<rparr>"
    by (rule validateContent_blank)
  then show ?thesis by simp
qed

section \<open>Properties of the numeric extraction helper\<close>

lemmas num_eval = extractNumericValue_def extractPercentageValue_def parseFloat_def
  unsigned_literal_def exponent_part_def pow10_def digits_val_def digit_val_def
  is_digit_def is_space_def

lemma parseFloat_Nil: "parseFloat [] = NaN" by (simp add: num_eval)
lemma parseFloat_NA: "parseFloat ''N/A'' = NaN" by (simp add: num_eval)

lemma extract_ex1: "extractNumericValue ''$1,200,000'' = Some (Fin 1200000)"
  by (simp add: num_eval)
lemma extract_ex2: "extractNumericValue ''(500)'' = Some (Fin (- 500))"
  by (simp add: num_eval)
lemma extract_ex3: "extractNumericValue ''15%'' = Some (Fin 15)"
  by (simp add: num_eval)
lemma extract_ex4: "extractNumericValue ''N/A'' = None"
  by (simp add: num_eval)
lemma extract_ex5: "extractNumericValue ''$1.2M'' = Some (Fin (6 / 5))"
  by (simp add: num_eval)
lemma extract_ex6: "extractNumericValue ''$3K'' = Some (Fin 3)"
  by (simp add: num_eval)
lemma extract_ex7: "extractNumericValue ''2.5B'' = Some (Fin (5 / 2))"
  by (simp add: num_eval)
lemma extract_ex8: "extractNumericValue ''$400,000'' = Some (Fin 400000)"
  by (simp add: num_eval)
lemma extract_ex9: "extractNumericValue ''($100)'' = Some (Fin (- 100))"
  by (simp add: num_eval)
lemma extract_ex10: "extractNumericValue ''$1.2'' = Some (Fin (6 / 5))"
  by (simp add: num_eval)

lemma extract_unfold:
  "extractNumericValue v =
     (if parseFloat (numericString v) = NaN then None
      else Some (if CHR ''('' \<in> set v \<and> CHR '')'' \<in> set v
                 then num_neg (parseFloat (numericString v))
                 else parseFloat (numericString v)))"
proof (cases "v = [] \<or> v = ''N/A''")
  case True
  then show ?thesis
  proof
    assume "v = []" then show ?thesis
      by (simp add: extractNumericValue_def numericString_def parseFloat_Nil)
  next
    assume "v = ''N/A''" then show ?thesis
      by (simp add: extractNumericValue_def numericString_def is_space_def parseFloat_NA)
  qed
next
  case False
  have p: "CHR ''('' \<in> set (filter (\<lambda>c. \<not> (c = CHR ''$'' \<or> c = CHR '','' \<or> is_space c \<or> c = CHR ''%'')) v)
       \<longleftrightarrow> CHR ''('' \<in> set v"
    by (auto simp: is_space_def)
  have q: "CHR '')'' \<in> set (filter (\<lambda>c. \<not> (c = CHR ''$'' \<or> c = CHR '','' \<or> is_space c \<or> c = CHR ''%'')) v)
       \<longleftrightarrow> CHR '')'' \<in> set v"
    by (auto simp: is_space_def)
  from False show ?thesis
    unfolding extractNumericValue_def numericString_def Let_def p q by simp
qed

lemma numericString_strip:
  "numericString (filter (\<lambda>c. \<not> (c = CHR ''$'' \<or> c = CHR '','' \<or> is_space c \<or> c = CHR ''%'')) v)
     = numericString v"
  unfolding numericString_def by (simp only: filter_filter conj_absorb)

lemma extract_strip:
  "extractNumericValue (filter (\<lambda>c. \<not> (c = CHR ''$'' \<or> c = CHR '','' \<or> is_space c \<or> c = CHR ''%'')) v)
     = extractNumericValue v"
proof -
  have p: "CHR ''('' \<in> set (filter (\<lambda>c. \<not> (c = CHR ''$'' \<or> c = CHR '','' \<or> is_space c \<or> c = CHR ''%'')) v)
       \<longleftrightarrow> CHR ''('' \<in> set v"
    by (auto simp: is_space_def)
  have q: "CHR '')'' \<in> set (filter (\<lambda>c. \<not> (c = CHR ''$'' \<or> c = CHR '','' \<or> is_space c \<or> c = CHR ''%'')) v)
       \<longleftrightarrow> CHR '')'' \<in> set v"
    by (auto simp: is_space_def)
  show ?thesis
    unfolding extract_unfold [of v] extract_unfold [of "filter _ v"] p q numericString_strip ..
qed

lemma takeWhile_append_none:
  "\<forall>c\<in>set ys. \<not> P c \<Longrightarrow> takeWhile P (xs @ ys) = takeWhile P xs"
  by (induction xs) (auto simp: takeWhile_eq_Nil_iff)

lemma dropWhile_append_none:
  "\<forall>c\<in>set ys. \<not> P c \<Longrightarrow> dropWhile P (xs @ ys) = dropWhile P xs @ ys"
proof (induction xs)
  case Nil
  then show ?case by (cases ys) auto
next
  case (Cons x xs)
  then show ?case by simp
qed

lemma letter_not_digit: "is_letter c \<Longrightarrow> \<not> is_digit c"
  by (auto simp: is_letter_def is_digit_def)

lemma letter_not_space: "is_letter c \<Longrightarrow> \<not> is_space c"
  by (auto simp: is_letter_def is_space_def)

lemma letter_not_special:
  "is_letter c \<Longrightarrow> c \<noteq> CHR ''+'' \<and> c \<noteq> CHR ''-'' \<and> c \<noteq> CHR ''.'' \<and> c \<noteq> CHR ''$'' \<and>
     c \<noteq> CHR '','' \<and> c \<noteq> CHR ''%'' \<and> c \<noteq> CHR ''('' \<and> c \<noteq> CHR '')''"
  by (auto simp: is_letter_def)

lemma strip_sign_letters:
  assumes "\<forall>c\<in>set sfx. is_letter c"
  shows "strip_sign (r @ sfx) = (fst (strip_sign r), snd (strip_sign r) @ sfx)"
proof (cases r)
  case Nil
  show ?thesis
  proof (cases sfx)
    case Nil
    with \<open>r = []\<close> show ?thesis by simp
  next
    case (Cons c cs)
    with assms have "is_letter c" by simp
    with Cons \<open>r = []\<close> show ?thesis using letter_not_special [of c] by simp
  qed
next
  case (Cons c cs)
  then show ?thesis by simp
qed

lemma exponent_part_letters:
  assumes "\<forall>c\<in>set sfx. is_letter c"
  shows "exponent_part (r @ sfx) = exponent_part r"
proof -
  have nd: "\<forall>c\<in>set sfx. \<not> is_digit c" using assms letter_not_digit by blast
  show ?thesis
  proof (cases r)
    case Nil
    show ?thesis
    proof (cases sfx)
      case Nil
      with \<open>r = []\<close> show ?thesis by simp
    next
      case (Cons c cs)
      then have l: "\<forall>c\<in>set cs. is_letter c" using assms by simp
      have "takeWhile is_digit (snd (strip_sign ([] @ cs))) = []"
        unfolding strip_sign_letters [OF l] using nd Cons
        by (cases cs) auto
      with Cons \<open>r = []\<close> show ?thesis by (simp add: exponent_part_def)
    qed
  next
    case (Cons e r')
    have "takeWhile is_digit (snd (strip_sign (r' @ sfx))) = takeWhile is_digit (snd (strip_sign r'))"
      unfolding strip_sign_letters [OF assms] using takeWhile_append_none [OF nd] by simp
    moreover have "fst (strip_sign (r' @ sfx)) = fst (strip_sign r')"
      unfolding strip_sign_letters [OF assms] by simp
    ultimately show ?thesis using Cons by (simp add: exponent_part_def Let_def)
  qed
qed

lemma unsigned_literal_letters:
  assumes "\<forall>c\<in>set sfx. is_letter c"
  shows "unsigned_literal (u @ sfx) = unsigned_literal u"
proof -
  have nd: "\<forall>c\<in>set sfx. \<not> is_digit c" using assms letter_not_digit by blast
  have tw: "\<And>xs. takeWhile is_digit (xs @ sfx) = takeWhile is_digit xs"
    using takeWhile_append_none [OF nd] .
  have dw: "\<And>xs. dropWhile is_digit (xs @ sfx) = dropWhile is_digit xs @ sfx"
    using dropWhile_append_none [OF nd] .
  have ex: "\<And>xs. exponent_part (xs @ sfx) = exponent_part xs"
    using exponent_part_letters [OF assms] .
  have nodot: "(sfx \<noteq> [] \<and> hd sfx = CHR ''.'') = False"
    using assms letter_not_special [of "hd sfx"] by (cases sfx) auto
  have ex0: "exponent_part sfx = exponent_part []"
    using ex [of "[]"] by simp
  define r1 where "r1 = dropWhile is_digit u"
  show ?thesis
  proof (cases "r1 = []")
    case True
    then show ?thesis
      by (simp add: unsigned_literal_def tw dw ex0 r1_def [symmetric] Let_def nodot)
  next
    case False
    then show ?thesis
      by (simp add: unsigned_literal_def tw dw ex r1_def [symmetric] Let_def)
  qed
qed

lemma unsigned_literal_Some_hd:
  assumes "unsigned_literal u = Some r"
  shows "u \<noteq> [] \<and> (is_digit (hd u) \<or> hd u = CHR ''.'')"
proof (cases u)
  case Nil
  with assms show ?thesis by (simp add: unsigned_literal_def)
next
  case (Cons c cs)
  with assms show ?thesis
    by (auto simp: unsigned_literal_def Let_def split: if_splits)
qed

lemma parseFloat_letters:
  assumes "\<forall>c\<in>set sfx. is_letter c" and "parseFloat s \<noteq> NaN"
  shows "parseFloat (s @ sfx) = parseFloat s"
proof -
  have ns: "\<forall>c\<in>set sfx. \<not> is_space c" using assms(1) letter_not_space by blast
  define t where "t = dropWhile is_space s"
  define u where "u = snd (strip_sign t)"
  have t': "dropWhile is_space (s @ sfx) = t @ sfx"
    unfolding t_def using dropWhile_append_none [OF ns] .
  have ss: "strip_sign (t @ sfx) = (fst (strip_sign t), u @ sfx)"
    unfolding u_def using strip_sign_letters [OF assms(1)] .
  show ?thesis
  proof (cases "prefix ''Infinity'' u")
    case True
    then have "prefix ''Infinity'' (u @ sfx)" by (rule prefix_prefix)
    with True show ?thesis
      by (simp add: parseFloat_def t' ss t_def [symmetric] u_def [symmetric])
  next
    case False
    with assms(2) obtain r where r: "unsigned_literal u = Some r"
      by (auto simp: parseFloat_def t_def [symmetric] u_def [symmetric] split: option.splits)
    from unsigned_literal_Some_hd [OF r] obtain c cs where u: "u = c # cs" and
      c: "is_digit c \<or> c = CHR ''.''" by (cases u) auto
    from c have "c \<noteq> CHR ''I''" by (auto simp: is_digit_def)
    then have "\<not> prefix ''Infinity'' (u @ sfx)" using u by simp
    with False show ?thesis
      by (simp add: parseFloat_def t' ss t_def [symmetric] u_def [symmetric]
          unsigned_literal_letters [OF assms(1)])
  qed
qed

lemma numericString_letters:
  assumes "\<forall>c\<in>set sfx. is_letter c"
  shows "numericString (v @ sfx) = numericString v @ sfx"
proof -
  have f1: "filter (\<lambda>c. \<not> (c = CHR ''$'' \<or> c = CHR '','' \<or> is_space c \<or> c = CHR ''%'')) sfx = sfx"
    using assms letter_not_special letter_not_space by (simp add: filter_id_conv)
  have f2: "filter (\<lambda>c. \<not> (c = CHR ''('' \<or> c = CHR '')'')) sfx = sfx"
    using assms letter_not_special by (simp add: filter_id_conv)
  show ?thesis unfolding numericString_def filter_append f1 f2 ..
qed

lemma extractNumericValue_letters:
  assumes "extractNumericValue v = Some n" and "\<forall>c\<in>set sfx. is_letter c"
  shows "extractNumericValue (v @ sfx) = Some n"
proof -
  have p: "CHR ''('' \<notin> set sfx" "CHR '')'' \<notin> set sfx"
    using assms(2) letter_not_special by blast+
  from assms(1) have nn: "parseFloat (numericString v) \<noteq> NaN"
    unfolding extract_unfold [of v] by (simp split: if_splits)
  have "parseFloat (numericString (v @ sfx)) = parseFloat (numericString v)"
    unfolding numericString_letters [OF assms(2)] using parseFloat_letters [OF assms(2) nn] .
  then have "extractNumericValue (v @ sfx) = extractNumericValue v"
    unfolding extract_unfold [of v] extract_unfold [of "v @ sfx"] using p by simp
  with assms(1) show ?thesis by simp
qed

subsection \<open>Values with a magnitude suffix\<close>

text \<open>
  When the cleaned form of a value is a number followed by letters, the extractors return
  that number: \<open>parseFloat\<close> stops at the first letter.
\<close>

lemma suffixed_number_extract:
  assumes "suffixed_number v num sfx"
  shows "extractNumericValue v = Some (leading_number v num)"
proof -
  from assms have n: "numericString v = num @ sfx" and l: "\<forall>c\<in>set sfx. is_letter c"
    and p: "parseFloat num \<noteq> NaN"
    by (simp_all add: suffixed_number_def list_all_iff)
  have "parseFloat (numericString v) = parseFloat num"
    unfolding n by (rule parseFloat_letters [OF l p])
  with p show ?thesis
    unfolding extract_unfold [of v] leading_number_def by simp
qed

lemma suffixed_number_not_NA:
  assumes "suffixed_number v num sfx"
  shows "v \<noteq> ''N/A''"
  using suffixed_number_extract [OF assms] extract_ex4 by auto

lemma percent_unfold:
  "extractPercentageValue v =
     (if parseFloat (percentString v) = NaN then None else Some (parseFloat (percentString v)))"
proof (cases "v = [] \<or> v = ''N/A''")
  case True
  then show ?thesis
  proof
    assume "v = []" then show ?thesis
      by (simp add: extractPercentageValue_def percentString_def parseFloat_Nil)
  next
    assume "v = ''N/A''" then show ?thesis
      by (simp add: extractPercentageValue_def percentString_def is_space_def parseFloat_NA)
  qed
next
  case False
  then show ?thesis
    unfolding extractPercentageValue_def percentString_def Let_def by simp
qed

lemma suffixed_percentage_extract:
  assumes "suffixed_percentage v num sfx"
  shows "extractPercentageValue v = Some (parseFloat num)"
proof -
  from assms have n: "percentString v = num @ sfx" and l: "\<forall>c\<in>set sfx. is_letter c"
    and p: "parseFloat num \<noteq> NaN"
    by (simp_all add: suffixed_percentage_def list_all_iff)
  have "parseFloat (percentString v) = parseFloat num"
    unfolding n by (rule parseFloat_letters [OF l p])
  with p show ?thesis unfolding percent_unfold [of v] by simp
qed

subsection \<open>Currency symbols\<close>

text \<open>
  C6. The numeric extraction helper maps \<open>$1,200,000\<close> to 1200000, \<open>(500)\<close> to -500,
  \<open>15%\<close> to 15 and \<open>N/A\<close> to null. It does not strip currency
  symbols in general, although its comment reads \<open>Remove currency symbols, commas, and
  spaces\<close>: the character class of its regular expression holds the dollar sign only. With a
  pound sign (code unit A3) or a yen sign (code unit A5) before \<open>500\<close> the cleaned string is
  the input itself, it does not parse, and the result is null; with a dollar sign, or with
  no symbol, the result is 500.
\<close>

theorem extractNumericValue_currency_symbol:
  "extractNumericValue ''$1,200,000'' = Some (Fin 1200000) \<and>
   extractNumericValue ''(500)'' = Some (Fin (- 500)) \<and>
   extractNumericValue ''15%'' = Some (Fin 15) \<and>
   extractNumericValue ''N/A'' = None \<and>
   extractNumericValue ''$500'' = Some (Fin 500) \<and>
   extractNumericValue ''500'' = Some (Fin 500) \<and>
   numericString (CHR 0xA3 # ''500'') = CHR 0xA3 # ''500'' \<and>
   extractNumericValue (CHR 0xA3 # ''500'') = None \<and>
   numericString (CHR 0xA5 # ''500'') = CHR 0xA5 # ''500'' \<and>
   extractNumericValue (CHR 0xA5 # ''500'') = None"
proof -
  have d: "extractNumericValue ''$500'' = Some (Fin 500)"
    "extractNumericValue ''500'' = Some (Fin 500)"
    by (simp_all add: num_eval)
  have p: "numericString (CHR 0xA3 # ''500'') = CHR 0xA3 # ''500''"
    "numericString (CHR 0xA5 # ''500'') = CHR 0xA5 # ''500''"
    by (simp_all add: numericString_def is_space_def)
  have n: "extractNumericValue (CHR 0xA3 # ''500'') = None"
    "extractNumericValue (CHR 0xA5 # ''500'') = None"
    by (simp_all add: num_eval)
  from extract_ex1 extract_ex2 extract_ex3 extract_ex4 d p n show ?thesis by simp
qed

section \<open>Properties of the dashboard generator\<close>

lemma profitability_filter1: "filter (\<lambda>i. insight_id i = ''profitability'') (profitabilityInsight a) = profitabilityInsight a"
  unfolding profitabilityInsight_def by (simp split: option.splits)
lemma profitability_filter2: "filter (\<lambda>i. insight_id i = ''profitability'') (growthInsight a) = []"
  unfolding growthInsight_def by (simp split: option.splits)
lemma profitability_filter3: "filter (\<lambda>i. insight_id i = ''profitability'') (cashFlowInsight a) = []"
proof (cases "cashFlow (kpis a) = Some ''N/A''")
  case True
  then show ?thesis unfolding cashFlowInsight_def by simp
next
  case False
  then show ?thesis unfolding cashFlowInsight_def
    by (cases "extractNumericValue_opt (cashFlow (kpis a))") simp_all
qed
lemma profitability_filter4: "filter (\<lambda>i. insight_id i = ''profitability'') (riskInsight a) = []"
  unfolding riskInsight_def by simp
lemma profitability_filter5: "filter (\<lambda>i. insight_id i = ''profitability'') (opportunityInsight a) = []"
  unfolding opportunityInsight_def by simp
lemma profitability_filter6: "filter (\<lambda>i. insight_id i = ''profitability'') (leverageInsight a) = []"
proof (cases "debtToEquityRatio (kpis a) = Some ''N/A''")
  case True
  then show ?thesis unfolding leverageInsight_def by simp
next
  case False
  then show ?thesis unfolding leverageInsight_def
    by (cases "extractNumericValue_opt (debtToEquityRatio (kpis a))") simp_all
qed

lemma generateInsights_profitability:
  "filter (\<lambda>i. insight_id i = ''profitability'') (generateInsights a) = profitabilityInsight a"
  unfolding generateInsights_def filter_append profitability_filter1 profitability_filter2 profitability_filter3 profitability_filter4 profitability_filter5 profitability_filter6 by simp

lemma pie_balanceSheet: "filter (\<lambda>c. ctype c = Pie) (balanceSheet fmt a) = balanceSheet fmt a"
  unfolding balanceSheet_def Let_def by simp

lemma titled_balanceSheet:
  "filter (\<lambda>c. title c = ''Balance Sheet Composition'') (balanceSheet fmt a) = balanceSheet fmt a"
  unfolding balanceSheet_def Let_def by simp

lemma generateChartData_pies:
  "filter (\<lambda>c. ctype c = Pie) (generateChartData fmt a) = balanceSheet fmt a"
  unfolding generateChartData_def filter_append pie_balanceSheet
  by (simp add: financialOverview_def performanceMetrics_def riskOpportunityData_def)

lemma generateChartData_titled:
  "filter (\<lambda>c. title c = ''Balance Sheet Composition'') (generateChartData fmt a) =
     balanceSheet fmt a"
  unfolding generateChartData_def filter_append titled_balanceSheet
  by (simp add: financialOverview_def performanceMetrics_def riskOpportunityData_def)

lemma balanceSheet_cases:
  "balanceSheet fmt a =
     (if totalAssets (kpis a) \<noteq> Some ''N/A'' \<and> totalLiabilities (kpis a) \<noteq> Some ''N/A'' \<and>
         num_gt (to_number (extractNumericValue_opt (totalAssets (kpis a)))) (Fin 0)
      then
        [\<lparr>ctype = Pie, title = ''Balance Sheet Composition'',
          data =
            [NameDatum ''Assets'' (extractNumericValue_opt (totalAssets (kpis a)))
               (totalAssets (kpis a)),
             NameDatum ''Liabilities'' (extractNumericValue_opt (totalLiabilities (kpis a)))
               (totalLiabilities (kpis a)),
             NameDatum ''Equity''
               (Some (num_max (Fin 0)
                  (num_sub (to_number (extractNumericValue_opt (totalAssets (kpis a))))
                     (to_number (extractNumericValue_opt (totalLiabilities (kpis a)))))))
               (Some (fmt
                  (num_sub (to_number (extractNumericValue_opt (totalAssets (kpis a))))
                     (to_number (extractNumericValue_opt (totalLiabilities (kpis a)))))))],
          xAxisKey = None, yAxisKey = None, dataKey = Some ''value''\<rparr>]
      else [])"
  unfolding balanceSheet_def Let_def by simp

lemma titled_set:
  "{c \<in> set (generateChartData fmt a). title c = ''Balance Sheet Composition''} =
     set (balanceSheet fmt a)"
  using generateChartData_titled [of fmt a, THEN arg_cong, of set] by simp

lemma pies_set:
  "{c \<in> set (generateChartData fmt a). ctype c = Pie} = set (balanceSheet fmt a)"
  using generateChartData_pies [of fmt a, THEN arg_cong, of set] by simp

lemma num_max_Fin: "num_max (Fin 0) (Fin z) = Fin (max 0 z)"
  by (simp add: num_max_def max_def)

text \<open>
  C7. A chart titled \<open>Balance Sheet Composition\<close> is emitted exactly when neither
  \<open>totalAssets\<close> nor \<open>totalLiabilities\<close> is \<open>N/A\<close> and the extracted asset value is
  strictly greater than 0 (an asset value that does not extract counts as 0). It is the only
  pie chart of the output. Its third entry, Equity, has as value the extracted assets minus the
  extracted liabilities (liabilities that do not extract count as 0), floored at zero. With
  \<open>totalAssets = N/A\<close> no pie chart and no chart of that title is emitted.
\<close>

theorem balance_sheet_pie_chart:
  "((\<exists>c\<in>set (generateChartData fmt a). title c = ''Balance Sheet Composition'') \<longleftrightarrow>
      totalAssets (kpis a) \<noteq> Some ''N/A'' \<and> totalLiabilities (kpis a) \<noteq> Some ''N/A'' \<and>
      num_gt (to_number (extractNumericValue_opt (totalAssets (kpis a)))) (Fin 0)) \<and>
   (\<forall>c\<in>set (generateChartData fmt a).
      (ctype c = Pie \<longleftrightarrow> title c = ''Balance Sheet Composition'') \<and>
      (title c = ''Balance Sheet Composition'' \<longrightarrow>
         data c ! 2 =
           NameDatum ''Equity''
             (Some (num_max (Fin 0)
                (num_sub (to_number (extractNumericValue_opt (totalAssets (kpis a))))
                   (to_number (extractNumericValue_opt (totalLiabilities (kpis a)))))))
             (Some (fmt
                (num_sub (to_number (extractNumericValue_opt (totalAssets (kpis a))))
                   (to_number (extractNumericValue_opt (totalLiabilities (kpis a))))))))) \<and>
   (\<forall>c\<in>set (generateChartData fmt a).
      title c = ''Balance Sheet Composition'' \<and>
      extractNumericValue_opt (totalAssets (kpis a)) = Some (Fin x) \<and>
      extractNumericValue_opt (totalLiabilities (kpis a)) = Some (Fin y) \<longrightarrow>
        data c ! 2 = NameDatum ''Equity'' (Some (Fin (max 0 (x - y)))) (Some (fmt (Fin (x - y))))) \<and>
   (totalAssets (kpis a) = Some ''N/A'' \<longrightarrow>
      (\<forall>c\<in>set (generateChartData fmt a).
         ctype c \<noteq> Pie \<and> title c \<noteq> ''Balance Sheet Composition''))"
proof -
  let ?cond = "totalAssets (kpis a) \<noteq> Some ''N/A'' \<and> totalLiabilities (kpis a) \<noteq> Some ''N/A'' \<and>
      num_gt (to_number (extractNumericValue_opt (totalAssets (kpis a)))) (Fin 0)"
  let ?eq = "num_sub (to_number (extractNumericValue_opt (totalAssets (kpis a))))
                   (to_number (extractNumericValue_opt (totalLiabilities (kpis a))))"
  have mem_t: "\<And>c. c \<in> set (generateChartData fmt a) \<and> title c = ''Balance Sheet Composition''
      \<longleftrightarrow> c \<in> set (balanceSheet fmt a)"
    using titled_set [of fmt a] by blast
  have mem_p: "\<And>c. c \<in> set (generateChartData fmt a) \<and> ctype c = Pie
      \<longleftrightarrow> c \<in> set (balanceSheet fmt a)"
    using pies_set [of fmt a] by blast
  have bs: "\<And>c. c \<in> set (balanceSheet fmt a) \<Longrightarrow>
      ?cond \<and> data c ! 2 = NameDatum ''Equity'' (Some (num_max (Fin 0) ?eq)) (Some (fmt ?eq))"
    unfolding balanceSheet_cases [of fmt a] by (simp split: if_splits)
  have ne: "?cond \<Longrightarrow> balanceSheet fmt a \<noteq> []"
    unfolding balanceSheet_cases [of fmt a] by simp
  have A: "(\<exists>c\<in>set (generateChartData fmt a). title c = ''Balance Sheet Composition'') \<longleftrightarrow> ?cond"
  proof
    assume "\<exists>c\<in>set (generateChartData fmt a). title c = ''Balance Sheet Composition''"
    then obtain c where "c \<in> set (balanceSheet fmt a)" using mem_t by blast
    then show ?cond using bs by blast
  next
    assume ?cond
    then have "balanceSheet fmt a \<noteq> []" by (rule ne)
    then obtain c where "c \<in> set (balanceSheet fmt a)" by (cases "balanceSheet fmt a") auto
    then show "\<exists>c\<in>set (generateChartData fmt a). title c = ''Balance Sheet Composition''"
      using mem_t by blast
  qed
  have B: "\<forall>c\<in>set (generateChartData fmt a).
      (ctype c = Pie \<longleftrightarrow> title c = ''Balance Sheet Composition'') \<and>
      (title c = ''Balance Sheet Composition'' \<longrightarrow>
         data c ! 2 = NameDatum ''Equity'' (Some (num_max (Fin 0) ?eq)) (Some (fmt ?eq)))"
    using mem_t mem_p bs by blast
  have C: "\<forall>c\<in>set (generateChartData fmt a).
      title c = ''Balance Sheet Composition'' \<and>
      extractNumericValue_opt (totalAssets (kpis a)) = Some (Fin x) \<and>
      extractNumericValue_opt (totalLiabilities (kpis a)) = Some (Fin y) \<longrightarrow>
        data c ! 2 = NameDatum ''Equity'' (Some (Fin (max 0 (x - y)))) (Some (fmt (Fin (x - y))))"
  proof (intro ballI impI)
    fix c assume c: "c \<in> set (generateChartData fmt a)"
      and h: "title c = ''Balance Sheet Composition'' \<and>
        extractNumericValue_opt (totalAssets (kpis a)) = Some (Fin x) \<and>
        extractNumericValue_opt (totalLiabilities (kpis a)) = Some (Fin y)"
    from c h have "c \<in> set (balanceSheet fmt a)" using mem_t by blast
    from bs [OF this] h show
      "data c ! 2 = NameDatum ''Equity'' (Some (Fin (max 0 (x - y)))) (Some (fmt (Fin (x - y))))"
      by (simp add: num_max_Fin)
  qed
  have D: "totalAssets (kpis a) = Some ''N/A'' \<longrightarrow>
      (\<forall>c\<in>set (generateChartData fmt a).
         ctype c \<noteq> Pie \<and> title c \<noteq> ''Balance Sheet Composition'')"
    using mem_t mem_p bs by blast
  from A B C D show ?thesis by (intro conjI)
qed

lemma example_assets:
  "extractNumericValue_opt (totalAssets (kpis example_analysis)) = Some (Fin 500)"
  by (simp add: example_analysis_def example_kpis_def num_eval)

lemma example_liabilities:
  "extractNumericValue_opt (totalLiabilities (kpis example_analysis)) = Some (Fin 200)"
  by (simp add: example_analysis_def example_kpis_def num_eval)

theorem balance_sheet_pie_chart_witness:
  "(totalAssets (kpis example_analysis) \<noteq> Some ''N/A'' \<and>
    totalLiabilities (kpis example_analysis) \<noteq> Some ''N/A'' \<and>
    num_gt (to_number (extractNumericValue_opt (totalAssets (kpis example_analysis)))) (Fin 0)) \<and>
   (\<exists>c\<in>set (generateChartData (\<lambda>n. []) example_analysis).
      title c = ''Balance Sheet Composition'' \<and> ctype c = Pie \<and>
      data c ! 2 = NameDatum ''Equity'' (Some (Fin 300)) (Some [])) \<and>
   totalAssets (kpis (example_analysis\<lparr>kpis := example_kpis\<lparr>totalAssets := Some ''N/A''\<rparr>\<rparr>)) =
     Some ''N/A'' \<and>
   list_all (\<lambda>c. ctype c \<noteq> Pie \<and> title c \<noteq> ''Balance Sheet Composition'')
     (generateChartData (\<lambda>n. [])
        (example_analysis\<lparr>kpis := example_kpis\<lparr>totalAssets := Some ''N/A''\<rparr>\<rparr>))"
proof -
  have cond: "totalAssets (kpis example_analysis) \<noteq> Some ''N/A'' \<and>
    totalLiabilities (kpis example_analysis) \<noteq> Some ''N/A'' \<and>
    num_gt (to_number (extractNumericValue_opt (totalAssets (kpis example_analysis)))) (Fin 0)"
    unfolding example_assets by (simp add: example_analysis_def example_kpis_def)
  have na: "totalAssets (kpis (example_analysis\<lparr>kpis := example_kpis\<lparr>totalAssets := Some ''N/A''\<rparr>\<rparr>)) =
     Some ''N/A''" by simp
  have m: "max 0 (500 - 200) = (300::rat)" by simp
  note t1 = balance_sheet_pie_chart [of "\<lambda>n. []" example_analysis 500 200]
  note t2 = balance_sheet_pie_chart
    [of "\<lambda>n. []" "example_analysis\<lparr>kpis := example_kpis\<lparr>totalAssets := Some ''N/A''\<rparr>\<rparr>" 0 0]
  from t1 cond obtain c where c: "c \<in> set (generateChartData (\<lambda>n. []) example_analysis)"
    "title c = ''Balance Sheet Composition''" by blast
  from t1 c have p: "ctype c = Pie" by blast
  from t1 c example_assets example_liabilities
  have "data c ! 2 = NameDatum ''Equity'' (Some (Fin (max 0 (500 - 200)))) (Some [])" by blast
  then have d: "data c ! 2 = NameDatum ''Equity'' (Some (Fin 300)) (Some [])"
    unfolding m .
  from c p d have e: "\<exists>c\<in>set (generateChartData (\<lambda>n. []) example_analysis).
      title c = ''Balance Sheet Composition'' \<and> ctype c = Pie \<and>
      data c ! 2 = NameDatum ''Equity'' (Some (Fin 300)) (Some [])" by blast
  from t2 na have f: "\<forall>c\<in>set (generateChartData (\<lambda>n. [])
        (example_analysis\<lparr>kpis := example_kpis\<lparr>totalAssets := Some ''N/A''\<rparr>\<rparr>)).
      ctype c \<noteq> Pie \<and> title c \<noteq> ''Balance Sheet Composition''" by blast
  from cond e na f show ?thesis unfolding list_all_iff by blast
qed

lemma profitabilityInsight_cases:
  "profitabilityInsight a =
     (case extractNumericValue (netProfit (kpis a)) of
        None \<Rightarrow> []
      | Some v \<Rightarrow>
          [\<lparr>insight_id = ''profitability'', insight_title = ''Profitability Analysis'',
            description =
              (if num_gt v (Fin 0)
               then ''Company shows positive profitability with net profit of '' @
                      netProfit (kpis a)
               else ''Company has negative profitability with net loss of '' @
                      netProfit (kpis a)),
            itype = (if num_gt v (Fin 0) then Positive else Negative),
            importance = High\<rparr>])"
  unfolding profitabilityInsight_def ..

lemma profitability_set:
  "{i \<in> set (insights (generateDashboard fmt a)). insight_id i = ''profitability''} =
     set (profitabilityInsight a)"
  using generateInsights_profitability [of a, THEN arg_cong, of set]
  by (simp add: generateDashboard_def)

text \<open>
  C8. The insight with id \<open>profitability\<close> is emitted if and only if the net profit KPI
  extracts to a number. Its importance is \<open>high\<close>, and its type is \<open>positive\<close> when the
  extracted value is strictly greater than 0 and \<open>negative\<close> otherwise. Net profit
  \<open>$400,000\<close> gives exactly one such insight, of type \<open>positive\<close>; \<open>($100)\<close> gives one
  of type \<open>negative\<close>; \<open>N/A\<close> gives none.
\<close>

theorem profitability_insight:
  "((\<exists>i\<in>set (insights (generateDashboard fmt a)). insight_id i = ''profitability'') \<longleftrightarrow>
      extractNumericValue (netProfit (kpis a)) \<noteq> None) \<and>
   (\<forall>i\<in>set (insights (generateDashboard fmt a)).
      insight_id i = ''profitability'' \<longrightarrow>
        importance i = High \<and>
        (\<exists>v. extractNumericValue (netProfit (kpis a)) = Some v \<and>
             itype i = (if num_gt v (Fin 0) then Positive else Negative))) \<and>
   (netProfit (kpis a) = ''$400,000'' \<longrightarrow>
      map itype (filter (\<lambda>i. insight_id i = ''profitability'')
        (insights (generateDashboard fmt a))) = [Positive]) \<and>
   (netProfit (kpis a) = ''($100)'' \<longrightarrow>
      map itype (filter (\<lambda>i. insight_id i = ''profitability'')
        (insights (generateDashboard fmt a))) = [Negative]) \<and>
   (netProfit (kpis a) = ''N/A'' \<longrightarrow>
      filter (\<lambda>i. insight_id i = ''profitability'') (insights (generateDashboard fmt a)) = [])"
proof -
  have mem: "\<And>i. i \<in> set (insights (generateDashboard fmt a)) \<and> insight_id i = ''profitability''
      \<longleftrightarrow> i \<in> set (profitabilityInsight a)"
    using profitability_set [of fmt a] by blast
  have fl: "filter (\<lambda>i. insight_id i = ''profitability'') (insights (generateDashboard fmt a)) =
      profitabilityInsight a"
    using generateInsights_profitability [of a] by (simp add: generateDashboard_def)
  have A: "(\<exists>i\<in>set (insights (generateDashboard fmt a)). insight_id i = ''profitability'') \<longleftrightarrow>
      extractNumericValue (netProfit (kpis a)) \<noteq> None"
  proof -
    have "(\<exists>i. i \<in> set (profitabilityInsight a)) \<longleftrightarrow>
        extractNumericValue (netProfit (kpis a)) \<noteq> None"
      unfolding profitabilityInsight_cases [of a]
      by (cases "extractNumericValue (netProfit (kpis a))") simp_all
    then show ?thesis using mem by blast
  qed
  have B: "\<forall>i\<in>set (insights (generateDashboard fmt a)).
      insight_id i = ''profitability'' \<longrightarrow>
        importance i = High \<and>
        (\<exists>v. extractNumericValue (netProfit (kpis a)) = Some v \<and>
             itype i = (if num_gt v (Fin 0) then Positive else Negative))"
  proof (intro ballI impI)
    fix i assume "i \<in> set (insights (generateDashboard fmt a))" "insight_id i = ''profitability''"
    then have "i \<in> set (profitabilityInsight a)" using mem by blast
    then show "importance i = High \<and>
        (\<exists>v. extractNumericValue (netProfit (kpis a)) = Some v \<and>
             itype i = (if num_gt v (Fin 0) then Positive else Negative))"
      unfolding profitabilityInsight_cases [of a]
      by (cases "extractNumericValue (netProfit (kpis a))") simp_all
  qed
  have C: "netProfit (kpis a) = ''$400,000'' \<longrightarrow>
      map itype (filter (\<lambda>i. insight_id i = ''profitability'')
        (insights (generateDashboard fmt a))) = [Positive]"
    unfolding fl profitabilityInsight_cases [of a] using extract_ex8 by simp
  have D: "netProfit (kpis a) = ''($100)'' \<longrightarrow>
      map itype (filter (\<lambda>i. insight_id i = ''profitability'')
        (insights (generateDashboard fmt a))) = [Negative]"
    unfolding fl profitabilityInsight_cases [of a] using extract_ex9 by simp
  have E: "netProfit (kpis a) = ''N/A'' \<longrightarrow>
      filter (\<lambda>i. insight_id i = ''profitability'') (insights (generateDashboard fmt a)) = []"
    unfolding fl profitabilityInsight_cases [of a] using extract_ex4 by simp
  from A B C D E show ?thesis by blast
qed

theorem profitability_insight_witness:
  "netProfit (kpis example_analysis) = ''$400,000'' \<and>
   extractNumericValue (netProfit (kpis example_analysis)) \<noteq> None \<and>
   (\<exists>i\<in>set (insights (generateDashboard (\<lambda>n. []) example_analysis)).
      insight_id i = ''profitability'' \<and> importance i = High) \<and>
   map itype (filter (\<lambda>i. insight_id i = ''profitability'')
     (insights (generateDashboard (\<lambda>n. []) example_analysis))) = [Positive] \<and>
   netProfit (kpis (example_analysis\<lparr>kpis := example_kpis\<lparr>netProfit := ''($100)''\<rparr>\<rparr>)) = ''($100)'' \<and>
   map itype (filter (\<lambda>i. insight_id i = ''profitability'')
     (insights (generateDashboard (\<lambda>n. [])
        (example_analysis\<lparr>kpis := example_kpis\<lparr>netProfit := ''($100)''\<rparr>\<rparr>)))) = [Negative] \<and>
   netProfit (kpis (example_analysis\<lparr>kpis := example_kpis\<lparr>netProfit := ''N/A''\<rparr>\<rparr>)) = ''N/A'' \<and>
   filter (\<lambda>i. insight_id i = ''profitability'')
     (insights (generateDashboard (\<lambda>n. [])
        (example_analysis\<lparr>kpis := example_kpis\<lparr>netProfit := ''N/A''\<rparr>\<rparr>))) = []"
proof -
  have np: "netProfit (kpis example_analysis) = ''$400,000''"
    by (simp add: example_analysis_def example_kpis_def)
  have nn: "extractNumericValue (netProfit (kpis example_analysis)) \<noteq> None"
    unfolding np extract_ex8 by simp
  have n2: "netProfit (kpis (example_analysis\<lparr>kpis := example_kpis\<lparr>netProfit := ''($100)''\<rparr>\<rparr>)) = ''($100)''"
    by simp
  have n3: "netProfit (kpis (example_analysis\<lparr>kpis := example_kpis\<lparr>netProfit := ''N/A''\<rparr>\<rparr>)) = ''N/A''"
    by simp
  note t1 = profitability_insight [of "\<lambda>n. []" example_analysis]
  note t2 = profitability_insight
    [of "\<lambda>n. []" "example_analysis\<lparr>kpis := example_kpis\<lparr>netProfit := ''($100)''\<rparr>\<rparr>"]
  note t3 = profitability_insight
    [of "\<lambda>n. []" "example_analysis\<lparr>kpis := example_kpis\<lparr>netProfit := ''N/A''\<rparr>\<rparr>"]
  from t1 nn have e: "\<exists>i\<in>set (insights (generateDashboard (\<lambda>n. []) example_analysis)).
      insight_id i = ''profitability'' \<and> importance i = High" by blast
  from t1 np have p: "map itype (filter (\<lambda>i. insight_id i = ''profitability'')
     (insights (generateDashboard (\<lambda>n. []) example_analysis))) = [Positive]" by blast
  from t2 n2 have q: "map itype (filter (\<lambda>i. insight_id i = ''profitability'')
     (insights (generateDashboard (\<lambda>n. [])
        (example_analysis\<lparr>kpis := example_kpis\<lparr>netProfit := ''($100)''\<rparr>\<rparr>)))) = [Negative]"
    by blast
  from t3 n3 have r: "filter (\<lambda>i. insight_id i = ''profitability'')
     (insights (generateDashboard (\<lambda>n. [])
        (example_analysis\<lparr>kpis := example_kpis\<lparr>netProfit := ''N/A''\<rparr>\<rparr>))) = []"
    by blast
  from np nn e p n2 q n3 r show ?thesis by blast
qed

subsection \<open>Suffixed values in the charts and in the insights\<close>

text \<open>The insights of one id, and the charts of one title, of a dashboard.\<close>

lemma by_id_profitability:
  "filter (\<lambda>i. insight_id i = x) (profitabilityInsight a) =
     (if x = ''profitability'' then profitabilityInsight a else [])"
  unfolding profitabilityInsight_def
  by (cases "extractNumericValue (netProfit (kpis a))") auto

lemma by_id_growth:
  "filter (\<lambda>i. insight_id i = x) (growthInsight a) =
     (if x = ''growth'' then growthInsight a else [])"
  unfolding growthInsight_def
  by (cases "extractPercentageValue (growthRate (kpis a))") auto

lemma by_id_cashflow:
  "filter (\<lambda>i. insight_id i = x) (cashFlowInsight a) =
     (if x = ''cashflow'' then cashFlowInsight a else [])"
proof (cases "cashFlow (kpis a) = Some ''N/A''")
  case True
  then show ?thesis unfolding cashFlowInsight_def by simp
next
  case False
  then show ?thesis unfolding cashFlowInsight_def
    by (cases "extractNumericValue_opt (cashFlow (kpis a))") auto
qed

lemma by_id_risk:
  "filter (\<lambda>i. insight_id i = x) (riskInsight a) = (if x = ''risks'' then riskInsight a else [])"
  unfolding riskInsight_def by auto

lemma by_id_opportunity:
  "filter (\<lambda>i. insight_id i = x) (opportunityInsight a) =
     (if x = ''opportunities'' then opportunityInsight a else [])"
  unfolding opportunityInsight_def by auto

lemma by_id_leverage:
  "filter (\<lambda>i. insight_id i = x) (leverageInsight a) =
     (if x = ''leverage'' then leverageInsight a else [])"
proof (cases "debtToEquityRatio (kpis a) = Some ''N/A''")
  case True
  then show ?thesis unfolding leverageInsight_def by simp
next
  case False
  then show ?thesis unfolding leverageInsight_def
    by (cases "extractNumericValue_opt (debtToEquityRatio (kpis a))") auto
qed

lemma insights_by_id:
  "filter (\<lambda>i. insight_id i = x) (insights (generateDashboard fmt a)) =
     (if x = ''profitability'' then profitabilityInsight a else []) @
     (if x = ''growth'' then growthInsight a else []) @
     (if x = ''cashflow'' then cashFlowInsight a else []) @
     (if x = ''risks'' then riskInsight a else []) @
     (if x = ''opportunities'' then opportunityInsight a else []) @
     (if x = ''leverage'' then leverageInsight a else [])"
proof -
  have "insights (generateDashboard fmt a) = generateInsights a"
    by (simp add: generateDashboard_def)
  then show ?thesis
    by (simp only: generateInsights_def filter_append by_id_profitability by_id_growth
        by_id_cashflow by_id_risk by_id_opportunity by_id_leverage)
qed

lemma by_title_balanceSheet:
  "filter (\<lambda>c. title c = x) (balanceSheet fmt a) =
     (if x = ''Balance Sheet Composition'' then balanceSheet fmt a else [])"
proof (cases "balanceSheet fmt a")
  case Nil
  then show ?thesis by simp
next
  case (Cons c cs)
  then have "cs = [] \<and> title c = ''Balance Sheet Composition''"
    unfolding balanceSheet_cases by (auto split: if_splits)
  with Cons show ?thesis by auto
qed

lemma by_title_single: "filter (\<lambda>c. title c = x) [c] = (if x = title c then [c] else [])"
  by auto

lemma charts_by_title:
  "filter (\<lambda>c. title c = x) (chartData (generateDashboard fmt a)) =
     (if x = ''Financial Overview'' then [financialOverview a] else []) @
     (if x = ''Balance Sheet Composition'' then balanceSheet fmt a else []) @
     (if x = ''Performance Metrics'' \<and> data (performanceMetrics a) \<noteq> []
      then [performanceMetrics a] else []) @
     (if x = ''Risk vs Opportunity Analysis'' then [riskOpportunityData a] else [])"
proof -
  have t: "title (financialOverview a) = ''Financial Overview''"
    "title (performanceMetrics a) = ''Performance Metrics''"
    "title (riskOpportunityData a) = ''Risk vs Opportunity Analysis''"
    by (simp_all add: financialOverview_def performanceMetrics_def riskOpportunityData_def)
  have c: "chartData (generateDashboard fmt a) = generateChartData fmt a"
    by (simp add: generateDashboard_def)
  have p: "filter (\<lambda>c. title c = x)
      (if length (data (performanceMetrics a)) > 0 then [performanceMetrics a] else []) =
      (if x = ''Performance Metrics'' \<and> data (performanceMetrics a) \<noteq> []
       then [performanceMetrics a] else [])"
    using t(2) by (cases "data (performanceMetrics a)") auto
  show ?thesis
    unfolding c generateChartData_def filter_append by_title_balanceSheet p by_title_single t ..
qed

lemma values_financialOverview:
  "chart_values (financialOverview a) =
     [extractNumericValue (revenue (kpis a)), extractNumericValue (expenses (kpis a)),
      extractNumericValue (netProfit (kpis a))]"
  by (simp add: chart_values_def financialOverview_def)

lemma values_performanceMetrics:
  assumes "extractPercentageValue (growthRate (kpis a)) = Some g"
    and "extractPercentageValue_opt (profitMargin (kpis a)) = Some m"
    and "extractPercentageValue_opt (returnOnInvestment (kpis a)) = Some r"
  shows "data (performanceMetrics a) \<noteq> []"
    and "chart_values (performanceMetrics a) = [Some g, Some m, Some r]"
  using assms by (simp_all add: chart_values_def performanceMetrics_def)

lemma values_balanceSheet:
  assumes "extractNumericValue_opt (totalAssets (kpis a)) = Some x"
    and "extractNumericValue_opt (totalLiabilities (kpis a)) = Some y"
    and "totalAssets (kpis a) \<noteq> Some ''N/A''" and "totalLiabilities (kpis a) \<noteq> Some ''N/A''"
  shows "map chart_values (balanceSheet fmt a) =
     (if num_gt x (Fin 0)
      then [[Some x, Some y, Some (num_max (Fin 0) (num_sub x y))]] else [])"
  unfolding balanceSheet_cases using assms by (simp add: chart_values_def)

lemma entries_financialOverview:
  "entry_values ''Financial Overview'' l (chartData (generateDashboard fmt a)) =
     (if l = ''Revenue'' then [extractNumericValue (revenue (kpis a))] else []) @
     (if l = ''Expenses'' then [extractNumericValue (expenses (kpis a))] else []) @
     (if l = ''Net Profit'' then [extractNumericValue (netProfit (kpis a))] else [])"
  unfolding entry_values_def charts_by_title
  by (simp add: financialOverview_def)

lemma entries_performanceMetrics:
  "entry_values ''Performance Metrics'' l (chartData (generateDashboard fmt a)) =
     (if l = ''Growth Rate'' \<and> extractPercentageValue (growthRate (kpis a)) \<noteq> None
      then [extractPercentageValue (growthRate (kpis a))] else []) @
     (if l = ''Profit Margin'' \<and> extractPercentageValue_opt (profitMargin (kpis a)) \<noteq> None
      then [extractPercentageValue_opt (profitMargin (kpis a))] else []) @
     (if l = ''ROI'' \<and> extractPercentageValue_opt (returnOnInvestment (kpis a)) \<noteq> None
      then [extractPercentageValue_opt (returnOnInvestment (kpis a))] else [])"
proof (cases "data (performanceMetrics a) = []")
  case True
  then show ?thesis
    unfolding entry_values_def charts_by_title
    by (simp add: performanceMetrics_def split: if_splits)
next
  case False
  then have "filter (\<lambda>c. title c = ''Performance Metrics'') (chartData (generateDashboard fmt a)) =
      [performanceMetrics a]"
    unfolding charts_by_title by simp
  then show ?thesis
    unfolding entry_values_def by (simp add: performanceMetrics_def)
qed

lemma by_id_only:
  "filter (\<lambda>i. insight_id i = ''growth'') (insights (generateDashboard fmt a)) = growthInsight a"
  "filter (\<lambda>i. insight_id i = ''cashflow'') (insights (generateDashboard fmt a)) =
     cashFlowInsight a"
  "filter (\<lambda>i. insight_id i = ''leverage'') (insights (generateDashboard fmt a)) =
     leverageInsight a"
  "filter (\<lambda>i. insight_id i = ''profitability'') (insights (generateDashboard fmt a)) =
     profitabilityInsight a"
  unfolding insights_by_id by simp_all

lemma by_title_only:
  "filter (\<lambda>c. title c = ''Balance Sheet Composition'') (chartData (generateDashboard fmt a)) =
     balanceSheet fmt a"
  unfolding charts_by_title by simp

lemmas suffix_eval = suffixed_number_def suffixed_percentage_def leading_number_def
  numericString_def percentString_def is_letter_def

text \<open>
  C10. The numeric extraction helper ignores magnitude suffixes: \<open>$1.2M\<close> extracts to 1.2,
  \<open>$3K\<close> to 3 and \<open>2.5B\<close> to 2.5. In general, for every value whose cleaned form is
  a number followed by letters, the result is that leading number (negated when the value has
  both parentheses); in particular letters appended to a value that extracts to a number do
  not change the result. The under-scaled number is what every chart value and every insight
  threshold derived from such a KPI receives: the Revenue, Expenses and Net Profit entries of
  the Financial Overview chart; the Assets, Liabilities and Equity entries of the Balance
  Sheet Composition chart, and the test \<open>> 0\<close> on the assets that decides whether the chart
  is emitted; the tests \<open>> 0\<close> of the profitability and cash flow insights and the tests
  \<open>> 1.5\<close> and \<open>> 1\<close> of the leverage insight. The percentage extractor behaves in the
  same way, for the Growth Rate, Profit Margin and ROI entries of the Performance Metrics
  chart and for the tests \<open>> 5\<close>, \<open>< 0\<close> and \<open>> 0\<close> of the growth insight.
\<close>

theorem extractNumericValue_ignores_suffix:
  "extractNumericValue ''$1.2M'' = Some (Fin (6 / 5)) \<and>
   extractNumericValue ''$3K'' = Some (Fin 3) \<and>
   extractNumericValue ''2.5B'' = Some (Fin (5 / 2)) \<and>
   (suffixed_number v n s \<longrightarrow> extractNumericValue v = Some (leading_number v n)) \<and>
   (extractNumericValue v = Some x \<and> (\<forall>c\<in>set s. is_letter c) \<longrightarrow>
      extractNumericValue (v @ s) = Some x) \<and>
   (suffixed_number (revenue (kpis a)) rn rs \<longrightarrow>
      entry_values ''Financial Overview'' ''Revenue'' (chartData (generateDashboard fmt a)) =
        [Some (leading_number (revenue (kpis a)) rn)]) \<and>
   (suffixed_number (expenses (kpis a)) en es \<longrightarrow>
      entry_values ''Financial Overview'' ''Expenses'' (chartData (generateDashboard fmt a)) =
        [Some (leading_number (expenses (kpis a)) en)]) \<and>
   (suffixed_number (netProfit (kpis a)) pn ps \<longrightarrow>
      entry_values ''Financial Overview'' ''Net Profit'' (chartData (generateDashboard fmt a)) =
        [Some (leading_number (netProfit (kpis a)) pn)]) \<and>
   (totalAssets (kpis a) = Some av \<and> suffixed_number av an az \<and>
    totalLiabilities (kpis a) = Some lv \<and> suffixed_number lv bn bs \<longrightarrow>
      map chart_values
        (filter (\<lambda>c. title c = ''Balance Sheet Composition'')
           (chartData (generateDashboard fmt a))) =
        (if num_gt (leading_number av an) (Fin 0)
         then [[Some (leading_number av an), Some (leading_number lv bn),
                Some (num_max (Fin 0) (num_sub (leading_number av an) (leading_number lv bn)))]]
         else [])) \<and>
   (suffixed_percentage (growthRate (kpis a)) gn gs \<longrightarrow>
      entry_values ''Performance Metrics'' ''Growth Rate'' (chartData (generateDashboard fmt a)) =
        [Some (parseFloat gn)]) \<and>
   (profitMargin (kpis a) = Some pm \<and> suffixed_percentage pm mn ms \<longrightarrow>
      entry_values ''Performance Metrics'' ''Profit Margin''
        (chartData (generateDashboard fmt a)) = [Some (parseFloat mn)]) \<and>
   (returnOnInvestment (kpis a) = Some roi \<and> suffixed_percentage roi qn qs \<longrightarrow>
      entry_values ''Performance Metrics'' ''ROI'' (chartData (generateDashboard fmt a)) =
        [Some (parseFloat qn)]) \<and>
   (suffixed_number (netProfit (kpis a)) pn ps \<longrightarrow>
      filter (\<lambda>i. insight_id i = ''profitability'') (insights (generateDashboard fmt a)) =
        [\<lparr>insight_id = ''profitability'', insight_title = ''Profitability Analysis'',
          description =
            (if num_gt (leading_number (netProfit (kpis a)) pn) (Fin 0)
             then ''Company shows positive profitability with net profit of '' @
                    netProfit (kpis a)
             else ''Company has negative profitability with net loss of '' @
                    netProfit (kpis a)),
          itype =
            (if num_gt (leading_number (netProfit (kpis a)) pn) (Fin 0) then Positive
             else Negative),
          importance = High\<rparr>]) \<and>
   (suffixed_percentage (growthRate (kpis a)) gn gs \<longrightarrow>
      filter (\<lambda>i. insight_id i = ''growth'') (insights (generateDashboard fmt a)) =
        [\<lparr>insight_id = ''growth'', insight_title = ''Growth Performance'',
          description =
            (if num_gt (parseFloat gn) (Fin 0)
             then ''Strong growth trajectory with '' @ growthRate (kpis a) @ '' growth rate''
             else ''Declining performance with '' @ growthRate (kpis a) @ '' growth rate''),
          itype =
            (if num_gt (parseFloat gn) (Fin 5) then Positive
             else if num_lt (parseFloat gn) (Fin 0) then Negative else Neutral),
          importance = High\<rparr>]) \<and>
   (cashFlow (kpis a) = Some cf \<and> suffixed_number cf cn cs \<longrightarrow>
      filter (\<lambda>i. insight_id i = ''cashflow'') (insights (generateDashboard fmt a)) =
        [\<lparr>insight_id = ''cashflow'', insight_title = ''Cash Flow Status'',
          description =
            (if num_gt (leading_number cf cn) (Fin 0)
             then ''Healthy cash flow from operations: '' @ cf
             else ''Negative cash flow requiring attention: '' @ cf),
          itype = (if num_gt (leading_number cf cn) (Fin 0) then Positive else Negative),
          importance = High\<rparr>]) \<and>
   (debtToEquityRatio (kpis a) = Some de \<and> suffixed_number de dn ds \<longrightarrow>
      filter (\<lambda>i. insight_id i = ''leverage'') (insights (generateDashboard fmt a)) =
        [\<lparr>insight_id = ''leverage'', insight_title = ''Financial Leverage'',
          description =
            (if num_gt (leading_number de dn) (Fin 1)
             then ''High leverage with debt-to-equity ratio of '' @ de
             else ''Conservative leverage with debt-to-equity ratio of '' @ de),
          itype =
            (if num_gt (leading_number de dn) (Fin (3 / 2)) then Negative
             else if num_gt (leading_number de dn) (Fin 1) then Neutral else Positive),
          importance =
            (if num_gt (leading_number de dn) (Fin (3 / 2)) then High else Medium)\<rparr>])"
proof -
  have g1: "suffixed_number v n s \<longrightarrow> extractNumericValue v = Some (leading_number v n)"
    using suffixed_number_extract [of v n s] by blast
  have g2: "extractNumericValue v = Some x \<and> (\<forall>c\<in>set s. is_letter c) \<longrightarrow>
      extractNumericValue (v @ s) = Some x"
    using extractNumericValue_letters [of v x s] by blast
  have f1: "suffixed_number (revenue (kpis a)) rn rs \<longrightarrow>
      entry_values ''Financial Overview'' ''Revenue'' (chartData (generateDashboard fmt a)) =
        [Some (leading_number (revenue (kpis a)) rn)]"
    unfolding entries_financialOverview using suffixed_number_extract [of _ rn rs] by simp
  have f2: "suffixed_number (expenses (kpis a)) en es \<longrightarrow>
      entry_values ''Financial Overview'' ''Expenses'' (chartData (generateDashboard fmt a)) =
        [Some (leading_number (expenses (kpis a)) en)]"
    unfolding entries_financialOverview using suffixed_number_extract [of _ en es] by simp
  have f3: "suffixed_number (netProfit (kpis a)) pn ps \<longrightarrow>
      entry_values ''Financial Overview'' ''Net Profit'' (chartData (generateDashboard fmt a)) =
        [Some (leading_number (netProfit (kpis a)) pn)]"
    unfolding entries_financialOverview using suffixed_number_extract [of _ pn ps] by simp
  have b: "totalAssets (kpis a) = Some av \<and> suffixed_number av an az \<and>
    totalLiabilities (kpis a) = Some lv \<and> suffixed_number lv bn bs \<longrightarrow>
      map chart_values
        (filter (\<lambda>c. title c = ''Balance Sheet Composition'')
           (chartData (generateDashboard fmt a))) =
        (if num_gt (leading_number av an) (Fin 0)
         then [[Some (leading_number av an), Some (leading_number lv bn),
                Some (num_max (Fin 0) (num_sub (leading_number av an) (leading_number lv bn)))]]
         else [])"
  proof (intro impI, elim conjE)
    assume av: "totalAssets (kpis a) = Some av" and sa: "suffixed_number av an az"
      and lv: "totalLiabilities (kpis a) = Some lv" and sl: "suffixed_number lv bn bs"
    have 1: "extractNumericValue_opt (totalAssets (kpis a)) = Some (leading_number av an)"
      unfolding av using suffixed_number_extract [OF sa] by simp
    have 2: "extractNumericValue_opt (totalLiabilities (kpis a)) = Some (leading_number lv bn)"
      unfolding lv using suffixed_number_extract [OF sl] by simp
    have 3: "totalAssets (kpis a) \<noteq> Some ''N/A''"
      unfolding av using suffixed_number_not_NA [OF sa] by simp
    have 4: "totalLiabilities (kpis a) \<noteq> Some ''N/A''"
      unfolding lv using suffixed_number_not_NA [OF sl] by simp
    show "map chart_values
        (filter (\<lambda>c. title c = ''Balance Sheet Composition'')
           (chartData (generateDashboard fmt a))) =
        (if num_gt (leading_number av an) (Fin 0)
         then [[Some (leading_number av an), Some (leading_number lv bn),
                Some (num_max (Fin 0) (num_sub (leading_number av an) (leading_number lv bn)))]]
         else [])"
      unfolding by_title_only by (rule values_balanceSheet [OF 1 2 3 4])
  qed
  have p1: "suffixed_percentage (growthRate (kpis a)) gn gs \<longrightarrow>
      entry_values ''Performance Metrics'' ''Growth Rate'' (chartData (generateDashboard fmt a)) =
        [Some (parseFloat gn)]"
    unfolding entries_performanceMetrics using suffixed_percentage_extract [of _ gn gs] by simp
  have p2: "profitMargin (kpis a) = Some pm \<and> suffixed_percentage pm mn ms \<longrightarrow>
      entry_values ''Performance Metrics'' ''Profit Margin''
        (chartData (generateDashboard fmt a)) = [Some (parseFloat mn)]"
    unfolding entries_performanceMetrics using suffixed_percentage_extract [of pm mn ms] by simp
  have p3: "returnOnInvestment (kpis a) = Some roi \<and> suffixed_percentage roi qn qs \<longrightarrow>
      entry_values ''Performance Metrics'' ''ROI'' (chartData (generateDashboard fmt a)) =
        [Some (parseFloat qn)]"
    unfolding entries_performanceMetrics using suffixed_percentage_extract [of roi qn qs] by simp
  have i1: "suffixed_number (netProfit (kpis a)) pn ps \<longrightarrow>
      filter (\<lambda>i. insight_id i = ''profitability'') (insights (generateDashboard fmt a)) =
        [\<lparr>insight_id = ''profitability'', insight_title = ''Profitability Analysis'',
          description =
            (if num_gt (leading_number (netProfit (kpis a)) pn) (Fin 0)
             then ''Company shows positive profitability with net profit of '' @
                    netProfit (kpis a)
             else ''Company has negative profitability with net loss of '' @
                    netProfit (kpis a)),
          itype =
            (if num_gt (leading_number (netProfit (kpis a)) pn) (Fin 0) then Positive
             else Negative),
          importance = High\<rparr>]"
    unfolding by_id_only profitabilityInsight_def
    using suffixed_number_extract [of _ pn ps] by simp
  have i2: "suffixed_percentage (growthRate (kpis a)) gn gs \<longrightarrow>
      filter (\<lambda>i. insight_id i = ''growth'') (insights (generateDashboard fmt a)) =
        [\<lparr>insight_id = ''growth'', insight_title = ''Growth Performance'',
          description =
            (if num_gt (parseFloat gn) (Fin 0)
             then ''Strong growth trajectory with '' @ growthRate (kpis a) @ '' growth rate''
             else ''Declining performance with '' @ growthRate (kpis a) @ '' growth rate''),
          itype =
            (if num_gt (parseFloat gn) (Fin 5) then Positive
             else if num_lt (parseFloat gn) (Fin 0) then Negative else Neutral),
          importance = High\<rparr>]"
    unfolding by_id_only growthInsight_def
    using suffixed_percentage_extract [of _ gn gs] by simp
  have i3: "cashFlow (kpis a) = Some cf \<and> suffixed_number cf cn cs \<longrightarrow>
      filter (\<lambda>i. insight_id i = ''cashflow'') (insights (generateDashboard fmt a)) =
        [\<lparr>insight_id = ''cashflow'', insight_title = ''Cash Flow Status'',
          description =
            (if num_gt (leading_number cf cn) (Fin 0)
             then ''Healthy cash flow from operations: '' @ cf
             else ''Negative cash flow requiring attention: '' @ cf),
          itype = (if num_gt (leading_number cf cn) (Fin 0) then Positive else Negative),
          importance = High\<rparr>]"
  proof (intro impI, elim conjE)
    assume c: "cashFlow (kpis a) = Some cf" and s: "suffixed_number cf cn cs"
    have 1: "extractNumericValue_opt (cashFlow (kpis a)) = Some (leading_number cf cn)"
      unfolding c using suffixed_number_extract [OF s] by simp
    have 2: "cashFlow (kpis a) \<noteq> Some ''N/A''"
      unfolding c using suffixed_number_not_NA [OF s] by simp
    have 3: "show_opt (cashFlow (kpis a)) = cf" unfolding c by simp
    show "filter (\<lambda>i. insight_id i = ''cashflow'') (insights (generateDashboard fmt a)) =
        [\<lparr>insight_id = ''cashflow'', insight_title = ''Cash Flow Status'',
          description =
            (if num_gt (leading_number cf cn) (Fin 0)
             then ''Healthy cash flow from operations: '' @ cf
             else ''Negative cash flow requiring attention: '' @ cf),
          itype = (if num_gt (leading_number cf cn) (Fin 0) then Positive else Negative),
          importance = High\<rparr>]"
      unfolding by_id_only cashFlowInsight_def 1 3 using 2 by simp
  qed
  have i4: "debtToEquityRatio (kpis a) = Some de \<and> suffixed_number de dn ds \<longrightarrow>
      filter (\<lambda>i. insight_id i = ''leverage'') (insights (generateDashboard fmt a)) =
        [\<lparr>insight_id = ''leverage'', insight_title = ''Financial Leverage'',
          description =
            (if num_gt (leading_number de dn) (Fin 1)
             then ''High leverage with debt-to-equity ratio of '' @ de
             else ''Conservative leverage with debt-to-equity ratio of '' @ de),
          itype =
            (if num_gt (leading_number de dn) (Fin (3 / 2)) then Negative
             else if num_gt (leading_number de dn) (Fin 1) then Neutral else Positive),
          importance =
            (if num_gt (leading_number de dn) (Fin (3 / 2)) then High else Medium)\<rparr>]"
  proof (intro impI, elim conjE)
    assume c: "debtToEquityRatio (kpis a) = Some de" and s: "suffixed_number de dn ds"
    have 1: "extractNumericValue_opt (debtToEquityRatio (kpis a)) = Some (leading_number de dn)"
      unfolding c using suffixed_number_extract [OF s] by simp
    have 2: "debtToEquityRatio (kpis a) \<noteq> Some ''N/A''"
      unfolding c using suffixed_number_not_NA [OF s] by simp
    have 3: "show_opt (debtToEquityRatio (kpis a)) = de" unfolding c by simp
    show "filter (\<lambda>i. insight_id i = ''leverage'') (insights (generateDashboard fmt a)) =
        [\<lparr>insight_id = ''leverage'', insight_title = ''Financial Leverage'',
          description =
            (if num_gt (leading_number de dn) (Fin 1)
             then ''High leverage with debt-to-equity ratio of '' @ de
             else ''Conservative leverage with debt-to-equity ratio of '' @ de),
          itype =
            (if num_gt (leading_number de dn) (Fin (3 / 2)) then Negative
             else if num_gt (leading_number de dn) (Fin 1) then Neutral else Positive),
          importance =
            (if num_gt (leading_number de dn) (Fin (3 / 2)) then High else Medium)\<rparr>]"
      unfolding by_id_only leverageInsight_def 1 3 using 2 by simp
  qed
  from extract_ex5 extract_ex6 extract_ex7 g1 g2 f1 f2 f3 b p1 p2 p3 i1 i2 i3 i4
  show ?thesis by (intro conjI)
qed

theorem extractNumericValue_ignores_suffix_witness:
  "suffixed_number ''$1.2M%'' ''1.2'' ''M'' \<and>
   extractNumericValue ''$1.2M%'' = Some (Fin (6 / 5)) \<and>
   extractNumericValue ''$1.2'' = Some (Fin (6 / 5)) \<and> list_all is_letter ''M'' \<and>
   extractNumericValue (''$1.2'' @ ''M'') = Some (Fin (6 / 5)) \<and>
   suffixed_number (revenue (kpis example_suffixed)) ''1.2'' ''M'' \<and>
   entry_values ''Financial Overview'' ''Revenue''
     (chartData (generateDashboard (\<lambda>n. []) example_suffixed)) = [Some (Fin (6 / 5))] \<and>
   suffixed_number (expenses (kpis example_suffixed)) ''800'' ''K'' \<and>
   entry_values ''Financial Overview'' ''Expenses''
     (chartData (generateDashboard (\<lambda>n. []) example_suffixed)) = [Some (Fin 800)] \<and>
   suffixed_number (netProfit (kpis example_suffixed)) ''400'' ''K'' \<and>
   entry_values ''Financial Overview'' ''Net Profit''
     (chartData (generateDashboard (\<lambda>n. []) example_suffixed)) = [Some (Fin (- 400))] \<and>
   totalAssets (kpis example_suffixed) = Some ''$5M'' \<and> suffixed_number ''$5M'' ''5'' ''M'' \<and>
   totalLiabilities (kpis example_suffixed) = Some ''$2M'' \<and>
   suffixed_number ''$2M'' ''2'' ''M'' \<and>
   map chart_values
     (filter (\<lambda>c. title c = ''Balance Sheet Composition'')
        (chartData (generateDashboard (\<lambda>n. []) example_suffixed))) =
     [[Some (Fin 5), Some (Fin 2), Some (Fin 3)]] \<and>
   suffixed_percentage (growthRate (kpis example_suffixed)) ''15'' ''YoY'' \<and>
   entry_values ''Performance Metrics'' ''Growth Rate''
     (chartData (generateDashboard (\<lambda>n. []) example_suffixed)) = [Some (Fin 15)] \<and>
   profitMargin (kpis example_suffixed) = Some ''33% net'' \<and>
   suffixed_percentage ''33% net'' ''33'' ''net'' \<and>
   entry_values ''Performance Metrics'' ''Profit Margin''
     (chartData (generateDashboard (\<lambda>n. []) example_suffixed)) = [Some (Fin 33)] \<and>
   returnOnInvestment (kpis example_suffixed) = Some ''7% pa'' \<and>
   suffixed_percentage ''7% pa'' ''7'' ''pa'' \<and>
   entry_values ''Performance Metrics'' ''ROI''
     (chartData (generateDashboard (\<lambda>n. []) example_suffixed)) = [Some (Fin 7)] \<and>
   filter (\<lambda>i. insight_id i = ''profitability'')
     (insights (generateDashboard (\<lambda>n. []) example_suffixed)) =
     [\<lparr>insight_id = ''profitability'', insight_title = ''Profitability Analysis'',
       description = ''Company has negative profitability with net loss of ($400K)'',
       itype = Negative, importance = High\<rparr>] \<and>
   filter (\<lambda>i. insight_id i = ''growth'')
     (insights (generateDashboard (\<lambda>n. []) example_suffixed)) =
     [\<lparr>insight_id = ''growth'', insight_title = ''Growth Performance'',
       description = ''Strong growth trajectory with 15% YoY growth rate'',
       itype = Positive, importance = High\<rparr>] \<and>
   cashFlow (kpis example_suffixed) = Some ''$3K'' \<and> suffixed_number ''$3K'' ''3'' ''K'' \<and>
   filter (\<lambda>i. insight_id i = ''cashflow'')
     (insights (generateDashboard (\<lambda>n. []) example_suffixed)) =
     [\<lparr>insight_id = ''cashflow'', insight_title = ''Cash Flow Status'',
       description = ''Healthy cash flow from operations: $3K'',
       itype = Positive, importance = High\<rparr>] \<and>
   debtToEquityRatio (kpis example_suffixed) = Some ''1.2x'' \<and>
   suffixed_number ''1.2x'' ''1.2'' ''x'' \<and>
   filter (\<lambda>i. insight_id i = ''leverage'')
     (insights (generateDashboard (\<lambda>n. []) example_suffixed)) =
     [\<lparr>insight_id = ''leverage'', insight_title = ''Financial Leverage'',
       description = ''High leverage with debt-to-equity ratio of 1.2x'',
       itype = Neutral, importance = Medium\<rparr>]"
proof -
  have k: "revenue (kpis example_suffixed) = ''$1.2M''"
    "expenses (kpis example_suffixed) = ''$800K''"
    "netProfit (kpis example_suffixed) = ''($400K)''"
    "growthRate (kpis example_suffixed) = ''15% YoY''"
    "totalAssets (kpis example_suffixed) = Some ''$5M''"
    "totalLiabilities (kpis example_suffixed) = Some ''$2M''"
    "cashFlow (kpis example_suffixed) = Some ''$3K''"
    "debtToEquityRatio (kpis example_suffixed) = Some ''1.2x''"
    "returnOnInvestment (kpis example_suffixed) = Some ''7% pa''"
    "profitMargin (kpis example_suffixed) = Some ''33% net''"
    by (simp_all add: example_suffixed_def example_suffixed_kpis_def)
  have h: "suffixed_number ''$1.2M%'' ''1.2'' ''M''"
    "suffixed_number ''$1.2M'' ''1.2'' ''M''"
    "suffixed_number ''$800K'' ''800'' ''K''"
    "suffixed_number ''($400K)'' ''400'' ''K''"
    "suffixed_number ''$5M'' ''5'' ''M''"
    "suffixed_number ''$2M'' ''2'' ''M''"
    "suffixed_number ''$3K'' ''3'' ''K''"
    "suffixed_number ''1.2x'' ''1.2'' ''x''"
    by (simp_all add: suffix_eval num_eval)
  have q: "suffixed_percentage ''15% YoY'' ''15'' ''YoY''"
    "suffixed_percentage ''33% net'' ''33'' ''net''"
    "suffixed_percentage ''7% pa'' ''7'' ''pa''"
    by (simp_all add: suffix_eval num_eval)
  have l: "leading_number ''$1.2M%'' ''1.2'' = Fin (6 / 5)"
    "leading_number ''$1.2M'' ''1.2'' = Fin (6 / 5)"
    "leading_number ''$800K'' ''800'' = Fin 800"
    "leading_number ''($400K)'' ''400'' = Fin (- 400)"
    "leading_number ''$5M'' ''5'' = Fin 5"
    "leading_number ''$2M'' ''2'' = Fin 2"
    "leading_number ''$3K'' ''3'' = Fin 3"
    "leading_number ''1.2x'' ''1.2'' = Fin (6 / 5)"
    "parseFloat ''15'' = Fin 15" "parseFloat ''33'' = Fin 33" "parseFloat ''7'' = Fin 7"
    by (simp_all add: suffix_eval num_eval)
  have m: "list_all is_letter ''M''" by (simp add: is_letter_def)
  note t = extractNumericValue_ignores_suffix
    [where v = "''$1.2M%''" and n = "''1.2''" and s = "''M''" and
      a = example_suffixed and fmt = "\<lambda>n. []" and
      rn = "''1.2''" and rs = "''M''" and en = "''800''" and es = "''K''" and
      pn = "''400''" and ps = "''K''" and
      av = "''$5M''" and an = "''5''" and az = "''M''" and
      lv = "''$2M''" and bn = "''2''" and bs = "''M''" and
      gn = "''15''" and gs = "''YoY''" and
      pm = "''33% net''" and mn = "''33''" and ms = "''net''" and
      roi = "''7% pa''" and qn = "''7''" and qs = "''pa''" and
      cf = "''$3K''" and cn = "''3''" and cs = "''K''" and
      de = "''1.2x''" and dn = "''1.2''" and ds = "''x''"]
  note u = extractNumericValue_ignores_suffix
    [where v = "''$1.2''" and x = "Fin (6 / 5)" and s = "''M''"]
  have a1: "extractNumericValue ''$1.2M%'' = Some (Fin (6 / 5))"
    using t h(1) l(1) by simp
  have a2: "extractNumericValue (''$1.2'' @ ''M'') = Some (Fin (6 / 5))"
    by (rule u [THEN conjunct2, THEN conjunct2, THEN conjunct2, THEN conjunct2,
          THEN conjunct1, THEN mp])
      (simp add: extract_ex10 is_letter_def)
  show ?thesis
    using t a1 a2 extract_ex10 m
    unfolding k
    by (simp add: h q l num_lt_def num_max_def)
qed

section \<open>Properties of the response parser\<close>

lemmas json_eval = JSON_parse_def next_token_def lex_number_def lex_int_def lex_frac_def
  lex_exp_def is_json_ws_def is_digit_def digits_val_def digit_val_def pow10_def
  escape_char_def hex4_def hex_val_def byte_char_def

lemma JSON_parse_example: "JSON_parse example_json = Some example_parsed"
  by code_simp

lemma close_after_open:
  "CHR ''}'' \<in> set (dropWhile (\<lambda>c. c \<noteq> CHR ''{'') (a @ CHR ''{'' # b @ CHR ''}'' # c))"
  by (induction a) auto

lemma dropWhile_until:
  "x \<notin> set pre \<Longrightarrow> dropWhile (\<lambda>c. c \<noteq> x) (pre @ x # ys) = x # ys"
  by (induction pre) auto

lemma extract_json_None_iff:
  "extract_json s = None \<longleftrightarrow> \<not> (\<exists>a b c. s = a @ CHR ''{'' # b @ CHR ''}'' # c)"
proof
  assume n: "extract_json s = None"
  show "\<not> (\<exists>a b c. s = a @ CHR ''{'' # b @ CHR ''}'' # c)"
  proof
    assume "\<exists>a b c. s = a @ CHR ''{'' # b @ CHR ''}'' # c"
    then obtain a b c where s: "s = a @ CHR ''{'' # b @ CHR ''}'' # c" by blast
    have "CHR ''}'' \<in> set (dropWhile (\<lambda>c. c \<noteq> CHR ''{'') s)"
      unfolding s by (rule close_after_open)
    with n show False by (simp add: extract_json_def)
  qed
next
  assume h: "\<not> (\<exists>a b c. s = a @ CHR ''{'' # b @ CHR ''}'' # c)"
  show "extract_json s = None"
  proof (rule ccontr)
    assume "extract_json s \<noteq> None"
    then have m: "CHR ''}'' \<in> set (dropWhile (\<lambda>c. c \<noteq> CHR ''{'') s)"
      by (simp add: extract_json_def Let_def split: if_splits)
    then have ne: "dropWhile (\<lambda>c. c \<noteq> CHR ''{'') s \<noteq> []"
      by (auto simp del: dropWhile_eq_Nil_conv)
    then obtain r' where r: "dropWhile (\<lambda>c. c \<noteq> CHR ''{'') s = CHR ''{'' # r'"
      using hd_dropWhile [OF ne] by (cases "dropWhile (\<lambda>c. c \<noteq> CHR ''{'') s") auto
    with m have "CHR ''}'' \<in> set r'" by simp
    then obtain b c where "r' = b @ CHR ''}'' # c" by (meson split_list)
    with r have "s = takeWhile (\<lambda>c. c \<noteq> CHR ''{'') s @ CHR ''{'' # b @ CHR ''}'' # c"
      by (metis takeWhile_dropWhile_id)
    with h show False by blast
  qed
qed

lemma extract_json_embedded:
  assumes "CHR ''{'' \<notin> set pre" and "CHR ''}'' \<notin> set post"
    and "js \<noteq> []" and "hd js = CHR ''{''" and "last js = CHR ''}''"
  shows "extract_json (pre @ js @ post) = Some js"
proof -
  from assms(3,4) obtain t where js: "js = CHR ''{'' # t" by (cases js) auto
  have r: "dropWhile (\<lambda>c. c \<noteq> CHR ''{'') (pre @ js @ post) = js @ post"
    unfolding js using dropWhile_until [OF assms(1), of "t @ post"] by simp
  have m: "CHR ''}'' \<in> set (js @ post)"
    using assms(3,5) last_in_set [of js] by auto
  from assms(3,5) obtain u where rj: "rev js = CHR ''}'' # u"
    by (cases "rev js") (auto simp: last_rev [symmetric] hd_rev)
  have "CHR ''}'' \<notin> set (rev post)" using assms(2) by simp
  from dropWhile_until [OF this, of u]
  have "dropWhile (\<lambda>c. c \<noteq> CHR ''}'') (rev (js @ post)) = rev js"
    by (simp add: rj)
  with r m show ?thesis by (simp add: extract_json_def)
qed

lemma parse_no_match: "extract_json s = None \<Longrightarrow> parseAnalysisResponse s = fallbackResult"
  by (simp add: parseAnalysisResponse_def)

lemma parse_bad_json:
  "extract_json s = Some js \<Longrightarrow> JSON_parse js = None \<Longrightarrow>
   parseAnalysisResponse s = fallbackResult"
  by (simp add: parseAnalysisResponse_def)

lemma parse_cases:
  "parseAnalysisResponse s = fallbackResult \<or>
   (\<exists>js parsed. extract_json s = Some js \<and> JSON_parse js = Some parsed \<and> parsed \<noteq> JNull \<and>
      parseAnalysisResponse s = normalizeParsed parsed)"
proof (cases "extract_json s")
  case None
  then show ?thesis by (simp add: parse_no_match)
next
  case (Some js)
  show ?thesis
  proof (cases "JSON_parse js")
    case None
    with Some show ?thesis by (simp add: parse_bad_json)
  next
    case p: (Some parsed)
    with Some show ?thesis
      by (cases parsed) (simp_all add: parseAnalysisResponse_def)
  qed
qed

lemma parse_normal:
  "extract_json s = Some js \<Longrightarrow> JSON_parse js = Some parsed \<Longrightarrow> parsed \<noteq> JNull \<Longrightarrow>
   parseAnalysisResponse s = normalizeParsed parsed"
  by (cases parsed) (simp_all add: parseAnalysisResponse_def)

lemma kpi_values_fallback:
  "kpi_values (res_kpis fallbackResult) = replicate 10 (JString ''N/A'')"
  by (simp add: kpi_values_def fallbackResult_def numeral_eq_Suc)

lemma kpi_values_normalized:
  "kpi_values (res_kpis (normalizeParsed parsed)) =
     map (\<lambda>k. or_else (opt_chain (get_prop parsed ''kpis'') k) (JString ''N/A'')) kpi_names"
  by (simp add: kpi_values_def normalizeParsed_def kpi_names_def)

lemma truthy_or_else: "truthy d \<Longrightarrow> truthy (or_else x d)"
  by (cases x) auto

text \<open>
  C1. The response parser returns a result for every response. Whenever the response has no
  opening brace followed later by a closing brace (so that the regular expression does not
  match), or the matched substring is not valid JSON, the result is the fixed fallback: the
  apology as summary, \<open>N/A\<close> in all ten KPI fields, and the one advisory string as the only
  element of each of the three lists. In every other case the result is the normalization of
  the parsed value.
\<close>

theorem parse_fallback:
  "(extract_json response = None \<longrightarrow> parseAnalysisResponse response = fallbackResult) \<and>
   (\<not> (\<exists>a b c. response = a @ CHR ''{'' # b @ CHR ''}'' # c) \<longrightarrow>
      parseAnalysisResponse response = fallbackResult) \<and>
   (extract_json response = Some js \<and> JSON_parse js = None \<longrightarrow>
      parseAnalysisResponse response = fallbackResult) \<and>
   (parseAnalysisResponse response = fallbackResult \<or>
    (\<exists>js parsed. extract_json response = Some js \<and> JSON_parse js = Some parsed \<and>
       parseAnalysisResponse response = normalizeParsed parsed)) \<and>
   res_summary fallbackResult =
     JString ''Unable to generate detailed analysis. Please try again or contact support.'' \<and>
   kpi_values (res_kpis fallbackResult) = replicate 10 (JString ''N/A'') \<and>
   res_risks fallbackResult =
     [JString ''Analysis unavailable - please review the report manually''] \<and>
   res_opportunities fallbackResult =
     [JString ''Analysis unavailable - please review the report manually''] \<and>
   res_recommendations fallbackResult =
     [JString ''Analysis unavailable - please review the report manually'']"
proof -
  have a: "extract_json response = None \<longrightarrow> parseAnalysisResponse response = fallbackResult"
    using parse_no_match by blast
  have b: "\<not> (\<exists>a b c. response = a @ CHR ''{'' # b @ CHR ''}'' # c) \<longrightarrow>
      parseAnalysisResponse response = fallbackResult"
  proof
    assume "\<not> (\<exists>a b c. response = a @ CHR ''{'' # b @ CHR ''}'' # c)"
    then have "extract_json response = None" by (rule extract_json_None_iff [THEN iffD2])
    then show "parseAnalysisResponse response = fallbackResult" by (rule parse_no_match)
  qed
  have c: "extract_json response = Some js \<and> JSON_parse js = None \<longrightarrow>
      parseAnalysisResponse response = fallbackResult"
    using parse_bad_json by blast
  have d: "parseAnalysisResponse response = fallbackResult \<or>
    (\<exists>js parsed. extract_json response = Some js \<and> JSON_parse js = Some parsed \<and>
       parseAnalysisResponse response = normalizeParsed parsed)"
    using parse_cases [of response] by blast
  have e: "res_summary fallbackResult =
     JString ''Unable to generate detailed analysis. Please try again or contact support.''"
    "res_risks fallbackResult =
     [JString ''Analysis unavailable - please review the report manually'']"
    "res_opportunities fallbackResult =
     [JString ''Analysis unavailable - please review the report manually'']"
    "res_recommendations fallbackResult =
     [JString ''Analysis unavailable - please review the report manually'']"
    by (simp_all add: fallbackResult_def)
  from a b c d e kpi_values_fallback show ?thesis by (intro conjI)
qed

lemma extract_no_braces: "extract_json ''No analysis could be produced.'' = None"
  by (simp add: extract_json_def)

lemma extract_oops: "extract_json ''Result: {oops}'' = Some ''{oops}''"
  by (simp add: extract_json_def)

lemma JSON_parse_oops: "JSON_parse ''{oops}'' = None"
  by code_simp

theorem parse_fallback_witness:
  "extract_json ''No analysis could be produced.'' = None \<and>
   parseAnalysisResponse ''No analysis could be produced.'' = fallbackResult \<and>
   extract_json ''Result: {oops}'' = Some ''{oops}'' \<and> JSON_parse ''{oops}'' = None \<and>
   parseAnalysisResponse ''Result: {oops}'' = fallbackResult"
  using parse_fallback [of "''No analysis could be produced.''" "''{oops}''"]
    parse_fallback [of "''Result: {oops}''" "''{oops}''"]
    extract_no_braces extract_oops JSON_parse_oops
  by blast

lemma length_kpi_names: "length kpi_names = 10"
  by (simp add: kpi_names_def)

lemma kpi_values_truthy:
  "list_all truthy (kpi_values (res_kpis (parseAnalysisResponse response)))"
proof -
  from parse_cases [of response] show ?thesis
  proof
    assume "parseAnalysisResponse response = fallbackResult"
    then show ?thesis by (simp add: kpi_values_fallback list_all_iff)
  next
    assume "\<exists>js parsed. extract_json response = Some js \<and> JSON_parse js = Some parsed \<and>
      parsed \<noteq> JNull \<and> parseAnalysisResponse response = normalizeParsed parsed"
    then obtain parsed where "parseAnalysisResponse response = normalizeParsed parsed" by blast
    then show ?thesis
      by (simp add: kpi_values_normalized list_all_iff truthy_or_else)
  qed
qed

lemma summary_truthy: "truthy (res_summary (parseAnalysisResponse response))"
proof -
  from parse_cases [of response] show ?thesis
  proof
    assume "parseAnalysisResponse response = fallbackResult"
    then show ?thesis by (simp add: fallbackResult_def)
  next
    assume "\<exists>js parsed. extract_json response = Some js \<and> JSON_parse js = Some parsed \<and>
      parsed \<noteq> JNull \<and> parseAnalysisResponse response = normalizeParsed parsed"
    then obtain parsed where "parseAnalysisResponse response = normalizeParsed parsed" by blast
    then show ?thesis by (simp add: normalizeParsed_def truthy_or_else)
  qed
qed

lemma kpi_value_normal:
  assumes "extract_json response = Some js" "JSON_parse js = Some parsed" "parsed \<noteq> JNull"
    and "i < 10"
  shows "kpi_values (res_kpis (parseAnalysisResponse response)) ! i =
     or_else (opt_chain (get_prop parsed ''kpis'') (kpi_names ! i)) (JString ''N/A'')"
  using assms(4) unfolding parse_normal [OF assms(1-3)] kpi_values_normalized
  by (simp add: length_kpi_names)

lemma kpi_value_string_or_supplied:
  assumes "i < 10"
  shows "is_string (kpi_values (res_kpis (parseAnalysisResponse response)) ! i) \<or>
     (\<exists>js parsed. extract_json response = Some js \<and> JSON_parse js = Some parsed \<and>
        opt_chain (get_prop parsed ''kpis'') (kpi_names ! i) =
          Some (kpi_values (res_kpis (parseAnalysisResponse response)) ! i))"
proof -
  from parse_cases [of response] show ?thesis
  proof
    assume "parseAnalysisResponse response = fallbackResult"
    with assms show ?thesis by (simp add: kpi_values_fallback)
  next
    assume "\<exists>js parsed. extract_json response = Some js \<and> JSON_parse js = Some parsed \<and>
      parsed \<noteq> JNull \<and> parseAnalysisResponse response = normalizeParsed parsed"
    then obtain js parsed where p: "extract_json response = Some js" "JSON_parse js = Some parsed"
      "parsed \<noteq> JNull" by blast
    note v = kpi_value_normal [OF p assms]
    show ?thesis
    proof (cases "opt_chain (get_prop parsed ''kpis'') (kpi_names ! i)")
      case None
      with v show ?thesis by simp
    next
      case (Some x)
      show ?thesis
      proof (cases "truthy x")
        case True
        with v Some p show ?thesis by auto
      next
        case False
        with v Some show ?thesis by simp
      qed
    qed
  qed
qed

text \<open>
  C2 (as amended). For every response, each of the ten KPI fields of the result is present and
  truthy: never \<open>undefined\<close>, \<open>null\<close> or the empty string. In the normalization branch a
  field that the model output lacks, or holds with a falsy value, is \<open>N/A\<close>, and any other
  value is passed through as it is. So a field is a string unless the model supplied a value
  for it that is not a string. The three lists of the normalization branch are the arrays of
  the model output, and empty when the property is absent or not an array.
\<close>

theorem parse_result_fields:
  "list_all truthy (kpi_values (res_kpis (parseAnalysisResponse response))) \<and>
   truthy (res_summary (parseAnalysisResponse response)) \<and>
   (\<forall>i<10. is_string (kpi_values (res_kpis (parseAnalysisResponse response)) ! i) \<or>
      (\<exists>js parsed. extract_json response = Some js \<and> JSON_parse js = Some parsed \<and>
         opt_chain (get_prop parsed ''kpis'') (kpi_names ! i) =
           Some (kpi_values (res_kpis (parseAnalysisResponse response)) ! i))) \<and>
   (extract_json response = Some js \<and> JSON_parse js = Some parsed \<and> parsed \<noteq> JNull \<longrightarrow>
      (\<forall>i<10. kpi_values (res_kpis (parseAnalysisResponse response)) ! i =
         (case opt_chain (get_prop parsed ''kpis'') (kpi_names ! i) of
            None \<Rightarrow> JString ''N/A''
          | Some v \<Rightarrow> if truthy v then v else JString ''N/A'')) \<and>
      res_risks (parseAnalysisResponse response) =
        (case get_prop parsed ''risks'' of Some (JArray xs) \<Rightarrow> xs | _ \<Rightarrow> []) \<and>
      res_opportunities (parseAnalysisResponse response) =
        (case get_prop parsed ''opportunities'' of Some (JArray xs) \<Rightarrow> xs | _ \<Rightarrow> []) \<and>
      res_recommendations (parseAnalysisResponse response) =
        (case get_prop parsed ''recommendations'' of Some (JArray xs) \<Rightarrow> xs | _ \<Rightarrow> []))"
proof -
  have oe: "\<And>x d. or_else x d = (case x of None \<Rightarrow> d | Some v \<Rightarrow> if truthy v then v else d)"
    by (simp split: option.splits)
  have ae: "\<And>x. array_or_empty x = (case x of Some (JArray xs) \<Rightarrow> xs | _ \<Rightarrow> [])"
    by (simp split: option.splits json.splits)
  have c: "\<forall>i<10. is_string (kpi_values (res_kpis (parseAnalysisResponse response)) ! i) \<or>
      (\<exists>js parsed. extract_json response = Some js \<and> JSON_parse js = Some parsed \<and>
         opt_chain (get_prop parsed ''kpis'') (kpi_names ! i) =
           Some (kpi_values (res_kpis (parseAnalysisResponse response)) ! i))"
    using kpi_value_string_or_supplied by blast
  have d: "extract_json response = Some js \<and> JSON_parse js = Some parsed \<and> parsed \<noteq> JNull \<longrightarrow>
      (\<forall>i<10. kpi_values (res_kpis (parseAnalysisResponse response)) ! i =
         (case opt_chain (get_prop parsed ''kpis'') (kpi_names ! i) of
            None \<Rightarrow> JString ''N/A''
          | Some v \<Rightarrow> if truthy v then v else JString ''N/A'')) \<and>
      res_risks (parseAnalysisResponse response) =
        (case get_prop parsed ''risks'' of Some (JArray xs) \<Rightarrow> xs | _ \<Rightarrow> []) \<and>
      res_opportunities (parseAnalysisResponse response) =
        (case get_prop parsed ''opportunities'' of Some (JArray xs) \<Rightarrow> xs | _ \<Rightarrow> []) \<and>
      res_recommendations (parseAnalysisResponse response) =
        (case get_prop parsed ''recommendations'' of Some (JArray xs) \<Rightarrow> xs | _ \<Rightarrow> [])"
  proof (intro impI)
    assume h: "extract_json response = Some js \<and> JSON_parse js = Some parsed \<and> parsed \<noteq> JNull"
    then have p: "extract_json response = Some js" "JSON_parse js = Some parsed" "parsed \<noteq> JNull"
      by simp_all
    have k: "\<forall>i<10. kpi_values (res_kpis (parseAnalysisResponse response)) ! i =
         (case opt_chain (get_prop parsed ''kpis'') (kpi_names ! i) of
            None \<Rightarrow> JString ''N/A''
          | Some v \<Rightarrow> if truthy v then v else JString ''N/A'')"
      using kpi_value_normal [OF p] unfolding oe by blast
    have l: "res_risks (parseAnalysisResponse response) =
        (case get_prop parsed ''risks'' of Some (JArray xs) \<Rightarrow> xs | _ \<Rightarrow> [])"
      "res_opportunities (parseAnalysisResponse response) =
        (case get_prop parsed ''opportunities'' of Some (JArray xs) \<Rightarrow> xs | _ \<Rightarrow> [])"
      "res_recommendations (parseAnalysisResponse response) =
        (case get_prop parsed ''recommendations'' of Some (JArray xs) \<Rightarrow> xs | _ \<Rightarrow> [])"
      unfolding parse_normal [OF p] ae [symmetric] by (simp_all add: normalizeParsed_def)
    from k l show "(\<forall>i<10. kpi_values (res_kpis (parseAnalysisResponse response)) ! i =
         (case opt_chain (get_prop parsed ''kpis'') (kpi_names ! i) of
            None \<Rightarrow> JString ''N/A''
          | Some v \<Rightarrow> if truthy v then v else JString ''N/A'')) \<and>
      res_risks (parseAnalysisResponse response) =
        (case get_prop parsed ''risks'' of Some (JArray xs) \<Rightarrow> xs | _ \<Rightarrow> []) \<and>
      res_opportunities (parseAnalysisResponse response) =
        (case get_prop parsed ''opportunities'' of Some (JArray xs) \<Rightarrow> xs | _ \<Rightarrow> []) \<and>
      res_recommendations (parseAnalysisResponse response) =
        (case get_prop parsed ''recommendations'' of Some (JArray xs) \<Rightarrow> xs | _ \<Rightarrow> [])"
      by (intro conjI)
  qed
  from kpi_values_truthy [of response] summary_truthy [of response] c d
  show ?thesis by (intro conjI)
qed

lemma example_json_ends:
  "example_json \<noteq> [] \<and> hd example_json = CHR ''{'' \<and> last example_json = CHR ''}''"
  by (simp add: example_json_def)

lemma extract_example: "extract_json example_response = Some example_json"
  unfolding example_response_def
  by (rule extract_json_embedded) (simp_all add: example_json_ends)

lemma example_parsed_props:
  "example_parsed \<noteq> JNull"
  "get_prop example_parsed ''summary'' = Some (JString ''S'')"
  "get_prop example_parsed ''risks'' = Some (JArray [JString ''a''])"
  "get_prop example_parsed ''opportunities'' = Some (JArray [])"
  "get_prop example_parsed ''recommendations'' = Some (JArray [JString ''b''])"
  "opt_chain (get_prop example_parsed ''kpis'') ''revenue'' = Some (JString ''$1M'')"
  by (simp_all add: example_parsed_def example_parsed_with_def example_kpis_json_def)

theorem parse_result_fields_witness:
  "extract_json example_response = Some example_json \<and>
   JSON_parse example_json = Some example_parsed \<and> example_parsed \<noteq> JNull \<and>
   (0::nat) < 10 \<and>
   kpi_values (res_kpis (parseAnalysisResponse example_response)) ! 0 = JString ''$1M'' \<and>
   is_string (kpi_values (res_kpis (parseAnalysisResponse example_response)) ! 0) \<and>
   res_risks (parseAnalysisResponse example_response) = [JString ''a''] \<and>
   res_opportunities (parseAnalysisResponse example_response) = [] \<and>
   res_recommendations (parseAnalysisResponse example_response) = [JString ''b'']"
proof -
  note t = parse_result_fields [of example_response example_json example_parsed]
  have z: "(0::nat) < 10" by simp
  have n0: "kpi_names ! 0 = ''revenue''" by (simp add: kpi_names_def)
  from t extract_example JSON_parse_example example_parsed_props(1)
  have k: "\<forall>i<10. kpi_values (res_kpis (parseAnalysisResponse example_response)) ! i =
         (case opt_chain (get_prop example_parsed ''kpis'') (kpi_names ! i) of
            None \<Rightarrow> JString ''N/A''
          | Some v \<Rightarrow> if truthy v then v else JString ''N/A'')"
    and r: "res_risks (parseAnalysisResponse example_response) =
        (case get_prop example_parsed ''risks'' of Some (JArray xs) \<Rightarrow> xs | _ \<Rightarrow> [])"
    and p: "res_opportunities (parseAnalysisResponse example_response) =
        (case get_prop example_parsed ''opportunities'' of Some (JArray xs) \<Rightarrow> xs | _ \<Rightarrow> [])"
    and c: "res_recommendations (parseAnalysisResponse example_response) =
        (case get_prop example_parsed ''recommendations'' of Some (JArray xs) \<Rightarrow> xs | _ \<Rightarrow> [])"
    by blast+
  from k z have "kpi_values (res_kpis (parseAnalysisResponse example_response)) ! 0 =
         (case opt_chain (get_prop example_parsed ''kpis'') (kpi_names ! 0) of
            None \<Rightarrow> JString ''N/A''
          | Some v \<Rightarrow> if truthy v then v else JString ''N/A'')" by blast
  then have k0: "kpi_values (res_kpis (parseAnalysisResponse example_response)) ! 0 = JString ''$1M''"
    unfolding n0 example_parsed_props(6) by simp
  from r p c have l: "res_risks (parseAnalysisResponse example_response) = [JString ''a'']"
    "res_opportunities (parseAnalysisResponse example_response) = []"
    "res_recommendations (parseAnalysisResponse example_response) = [JString ''b'']"
    unfolding example_parsed_props by simp_all
  from extract_example JSON_parse_example example_parsed_props(1) z k0 l
  show ?thesis by simp
qed

lemma extract_numeric_kpi:
  \<open>extract_json ''{"kpis":{"revenue":5}}'' = Some ''{"kpis":{"revenue":5}}''\<close>
  by (simp add: extract_json_def)

lemma JSON_parse_numeric_kpi:
  \<open>JSON_parse ''{"kpis":{"revenue":5}}'' =
     Some (JObject [(''kpis'', JObject [(''revenue'', JNumber 5)])])\<close>
  by (simp add: json_eval)

text \<open>
  C2 as stated fails: when the model output holds the number 5 as revenue, the revenue field
  of the result is that number, not a string.
\<close>

theorem parse_numeric_kpi_counterexample:
  \<open>raw_revenue (res_kpis (parseAnalysisResponse ''{"kpis":{"revenue":5}}'')) = JNumber 5 \<and>
   \<not> is_string (raw_revenue (res_kpis (parseAnalysisResponse ''{"kpis":{"revenue":5}}'')))\<close>
proof -
  have "parseAnalysisResponse ''{\"kpis\":{\"revenue\":5}}'' =
      normalizeParsed (JObject [(''kpis'', JObject [(''revenue'', JNumber 5)])])"
    by (rule parse_normal [OF extract_numeric_kpi JSON_parse_numeric_kpi]) simp
  then show ?thesis by (simp add: normalizeParsed_def)
qed

lemma map_kpi_names:
  "map f kpi_names =
     [f ''revenue'', f ''expenses'', f ''netProfit'', f ''growthRate'', f ''totalAssets'',
      f ''totalLiabilities'', f ''cashFlow'', f ''debtToEquityRatio'',
      f ''returnOnInvestment'', f ''profitMargin'']"
  by (simp add: kpi_names_def)

text \<open>
  C5 (as amended). Take a response made of a prefix without an opening brace, the text of a
  valid JSON object from its opening to its closing brace, and a suffix without a closing
  brace. If the object has a non-empty string \<open>S\<close> as summary, a \<open>kpis\<close> object with a
  non-empty string for each of the ten KPI names, \<open>risks\<close> \<open>["a"]\<close>, \<open>opportunities\<close> \<open>[]\<close>
  and \<open>recommendations\<close> \<open>["b"]\<close>, then the parser returns summary \<open>S\<close>, every KPI value as
  supplied (revenue first), risks \<open>["a"]\<close>, the empty list of opportunities and
  recommendations \<open>["b"]\<close>.
\<close>

theorem parse_round_trip:
  assumes "CHR ''{'' \<notin> set pre" and "CHR ''}'' \<notin> set post"
    and "js \<noteq> []" and "hd js = CHR ''{''" and "last js = CHR ''}''"
    and "JSON_parse js = Some parsed"
    and "get_prop parsed ''summary'' = Some (JString S)" and "S \<noteq> []"
    and "get_prop parsed ''kpis'' = Some k"
    and "map (get_prop k) kpi_names = map (\<lambda>v. Some (JString v)) vs"
    and "list_all (\<lambda>v. v \<noteq> []) vs"
    and "get_prop parsed ''risks'' = Some (JArray [JString a])"
    and "get_prop parsed ''opportunities'' = Some (JArray [])"
    and "get_prop parsed ''recommendations'' = Some (JArray [JString b])"
  shows "res_summary (parseAnalysisResponse (pre @ js @ post)) = JString S \<and>
     kpi_values (res_kpis (parseAnalysisResponse (pre @ js @ post))) = map JString vs \<and>
     raw_revenue (res_kpis (parseAnalysisResponse (pre @ js @ post))) = JString (hd vs) \<and>
     res_risks (parseAnalysisResponse (pre @ js @ post)) = [JString a] \<and>
     res_opportunities (parseAnalysisResponse (pre @ js @ post)) = [] \<and>
     res_recommendations (parseAnalysisResponse (pre @ js @ post)) = [JString b]"
proof -
  have e: "extract_json (pre @ js @ post) = Some js"
    using assms(1-5) by (rule extract_json_embedded)
  from assms(7) have pn: "parsed \<noteq> JNull" by auto
  have n: "parseAnalysisResponse (pre @ js @ post) = normalizeParsed parsed"
    by (rule parse_normal [OF e assms(6) pn])
  have len: "length vs = 10"
    using assms(10) [THEN arg_cong, of length] by (simp add: length_kpi_names)
  from assms(10) have "get_prop k ''revenue'' \<noteq> None"
    unfolding map_kpi_names by (cases vs) auto
  then have kn: "k \<noteq> JNull" by auto
  then have oc: "\<And>x. opt_chain (Some k) x = get_prop k x" by (cases k) simp_all
  have "map (\<lambda>x. or_else (opt_chain (get_prop parsed ''kpis'') x) (JString ''N/A'')) kpi_names =
      map (\<lambda>x. or_else x (JString ''N/A'')) (map (get_prop k) kpi_names)"
    unfolding assms(9) oc by simp
  also have "\<dots> = map (\<lambda>v. or_else (Some (JString v)) (JString ''N/A'')) vs"
    unfolding assms(10) by simp
  also have "\<dots> = map JString vs"
    using assms(11) by (simp add: list_all_iff)
  finally have kv: "kpi_values (res_kpis (parseAnalysisResponse (pre @ js @ post))) = map JString vs"
    unfolding n kpi_values_normalized .
  from len obtain v vs' where vs: "vs = v # vs'" by (cases vs) auto
  from kv have rv: "raw_revenue (res_kpis (parseAnalysisResponse (pre @ js @ post))) = JString (hd vs)"
    unfolding vs by (simp add: kpi_values_def)
  have s: "res_summary (parseAnalysisResponse (pre @ js @ post)) = JString S"
    unfolding n using assms(7,8) by (simp add: normalizeParsed_def)
  have l: "res_risks (parseAnalysisResponse (pre @ js @ post)) = [JString a]"
    "res_opportunities (parseAnalysisResponse (pre @ js @ post)) = []"
    "res_recommendations (parseAnalysisResponse (pre @ js @ post)) = [JString b]"
    unfolding n using assms(12-14) by (simp_all add: normalizeParsed_def)
  from s kv rv l show ?thesis by (intro conjI)
qed

lemma example_kpis_props:
  "get_prop example_parsed ''kpis'' = Some (example_kpis_json ''$2M'')"
  "map (get_prop (example_kpis_json ''$2M'')) kpi_names =
     map (\<lambda>v. Some (JString v)) example_values"
  "list_all (\<lambda>v. v \<noteq> []) example_values"
  "hd example_values = ''$1M''"
  by (simp_all add: example_parsed_def example_parsed_with_def example_kpis_json_def
      kpi_names_def example_values_def)

theorem parse_round_trip_witness:
  "CHR ''{'' \<notin> set ''Here is the analysis: '' \<and> CHR ''}'' \<notin> set '' Done.'' \<and>
   example_json \<noteq> [] \<and> hd example_json = CHR ''{'' \<and> last example_json = CHR ''}'' \<and>
   JSON_parse example_json = Some example_parsed \<and>
   get_prop example_parsed ''summary'' = Some (JString ''S'') \<and>
   get_prop example_parsed ''kpis'' = Some (example_kpis_json ''$2M'') \<and>
   map (get_prop (example_kpis_json ''$2M'')) kpi_names =
     map (\<lambda>v. Some (JString v)) example_values \<and>
   list_all (\<lambda>v. v \<noteq> []) example_values \<and>
   get_prop example_parsed ''risks'' = Some (JArray [JString ''a'']) \<and>
   get_prop example_parsed ''opportunities'' = Some (JArray []) \<and>
   get_prop example_parsed ''recommendations'' = Some (JArray [JString ''b'']) \<and>
   res_summary (parseAnalysisResponse example_response) = JString ''S'' \<and>
   kpi_values (res_kpis (parseAnalysisResponse example_response)) = map JString example_values \<and>
   raw_revenue (res_kpis (parseAnalysisResponse example_response)) = JString ''$1M'' \<and>
   res_risks (parseAnalysisResponse example_response) = [JString ''a''] \<and>
   res_opportunities (parseAnalysisResponse example_response) = [] \<and>
   res_recommendations (parseAnalysisResponse example_response) = [JString ''b'']"
proof -
  have h1: "CHR ''{'' \<notin> set ''Here is the analysis: ''" by simp
  have h2: "CHR ''}'' \<notin> set '' Done.''" by simp
  have h3: "example_json \<noteq> []" and h4: "hd example_json = CHR ''{''"
    and h5: "last example_json = CHR ''}''"
    using example_json_ends by simp_all
  have h8: "''S'' \<noteq> []" by simp
  note t = parse_round_trip [OF h1 h2 h3 h4 h5 JSON_parse_example example_parsed_props(2) h8
      example_kpis_props(1) example_kpis_props(2) example_kpis_props(3)
      example_parsed_props(3) example_parsed_props(4) example_parsed_props(5),
      folded example_response_def, unfolded example_kpis_props(4)]
  from h1 h2 h3 h4 h5 JSON_parse_example example_parsed_props(2-5) example_kpis_props(1-3) t
  show ?thesis by simp
qed

lemma JSON_parse_two_objects: "JSON_parse (''{note} '' @ example_json) = None"
  by code_simp

lemma extract_two_objects:
  "extract_json (''{note} '' @ example_json) = Some (''{note} '' @ example_json)"
  using extract_json_embedded [of "[]" "[]" "''{note} '' @ example_json"] example_json_ends
  by simp

lemma JSON_parse_example_empty: "JSON_parse example_json_empty = Some (example_parsed_with [])"
  by code_simp

lemma extract_example_empty: "extract_json example_json_empty = Some example_json_empty"
proof -
  have "example_json_empty \<noteq> [] \<and> hd example_json_empty = CHR ''{'' \<and>
      last example_json_empty = CHR ''}''"
    by (simp add: example_json_empty_def)
  then show ?thesis using extract_json_embedded [of "[]" "[]" example_json_empty] by simp
qed

text \<open>
  C5 as stated fails in two ways. With a brace in the prose before the object, the match runs
  from that brace to the end of the object, is not valid JSON, and the result is the fallback,
  whose summary is not \<open>S\<close>. And a KPI supplied as the empty string is not preserved: the
  result holds \<open>N/A\<close>.
\<close>

theorem parse_round_trip_counterexample:
  "JSON_parse example_json = Some example_parsed \<and>
   get_prop example_parsed ''summary'' = Some (JString ''S'') \<and>
   parseAnalysisResponse (''{note} '' @ example_json) = fallbackResult \<and>
   res_summary (parseAnalysisResponse (''{note} '' @ example_json)) \<noteq> JString ''S'' \<and>
   JSON_parse example_json_empty = Some (example_parsed_with []) \<and>
   opt_chain (get_prop (example_parsed_with []) ''kpis'') ''expenses'' = Some (JString []) \<and>
   raw_expenses (res_kpis (parseAnalysisResponse example_json_empty)) = JString ''N/A''"
proof -
  have f: "parseAnalysisResponse (''{note} '' @ example_json) = fallbackResult"
    by (rule parse_bad_json [OF extract_two_objects JSON_parse_two_objects])
  then have s: "res_summary (parseAnalysisResponse (''{note} '' @ example_json)) \<noteq> JString ''S''"
    by (simp add: fallbackResult_def)
  have p: "example_parsed_with [] \<noteq> JNull" by (simp add: example_parsed_with_def)
  have o: "opt_chain (get_prop (example_parsed_with []) ''kpis'') ''expenses'' = Some (JString [])"
    by (simp add: example_parsed_with_def example_kpis_json_def)
  have "parseAnalysisResponse example_json_empty = normalizeParsed (example_parsed_with [])"
    by (rule parse_normal [OF extract_example_empty JSON_parse_example_empty p])
  then have e: "raw_expenses (res_kpis (parseAnalysisResponse example_json_empty)) = JString ''N/A''"
    using o by (simp add: normalizeParsed_def)
  from JSON_parse_example example_parsed_props(2) f s JSON_parse_example_empty o e
  show ?thesis by (intro conjI)
qed

section \<open>Properties of the CSV extractor\<close>

lemma csv_rows_eq:
  assumes "\<forall>l\<in>set lines. l \<noteq> [] \<and> trim l \<noteq> []" and "maxRows \<le> length lines"
  shows "csv_rows lines maxRows i t =
     t @ concat (map (\<lambda>j. csv_row j (lines ! j)) [i..<maxRows])"
  using assms
proof (induction lines maxRows i t rule: csv_rows.induct)
  case (1 lines maxRows i t)
  show ?case
  proof (cases "i < maxRows")
    case True
    with "1.prems" have "lines ! i \<in> set lines" by simp
    with "1.prems" have nb: "lines ! i \<noteq> [] \<and> trim (lines ! i) \<noteq> []" by blast
    have u: "[i..<maxRows] = i # [i + 1..<maxRows]" using True by (simp add: upt_conv_Cons)
    from "1.IH" [OF True "1.prems"] nb True show ?thesis
      unfolding u by (subst csv_rows.simps) (simp add: csv_row_def)
  next
    case False
    then show ?thesis by (subst csv_rows.simps) simp
  qed
qed

lemma csv_lines_nonblank: "\<forall>l\<in>set (csv_lines content). l \<noteq> [] \<and> trim l \<noteq> []"
  by (auto simp: csv_lines_def trim_def)

lemma parseCSV_text:
  "fileText (parseCSV now content name) =
     ''CSV File: '' @ name @ [CHR 0x0A] @
     ''Headers: '' @
       join '' | '' (case csv_lines content of [] \<Rightarrow> [] | l # _ \<Rightarrow> map trim (split_on CHR '','' l)) @
       [CHR 0x0A] @
     ''Total Rows: '' @ show_int (int (length (csv_lines content)) - 1) @ [CHR 0x0A, CHR 0x0A] @
     concat (map (\<lambda>j. csv_row j (csv_lines content ! j))
               [0..<min 100 (length (csv_lines content))]) @
     (if 100 < length (csv_lines content)
      then [CHR 0x0A] @ ''... and '' @ show_nat (length (csv_lines content) - 100) @
             '' more rows'' @ [CHR 0x0A]
      else [])"
proof -
  have m: "min 100 (length (csv_lines content)) \<le> length (csv_lines content)" by simp
  show ?thesis
    unfolding parseCSV_def Let_def csv_lines_def [symmetric]
      csv_rows_eq [OF csv_lines_nonblank m]
    by simp
qed

text \<open>
  C4. The extracted text of a CSV content is the three header lines, then one \<open>Row\<close> line for
  each of the first 100 non-blank lines of the content, the header line included as
  \<open>Row 1\<close>, then the truncation notice if the content has more than 100 non-blank lines,
  the header line included. So on the content with the header line \<open>a,b\<close> and the single
  data row \<open>1,2\<close> the extractor reports one row in total, yet emits two lines that begin
  with \<open>Row\<close>: the header line as \<open>Row 1\<close> and the data row as \<open>Row 2\<close>.
\<close>

theorem parseCSV_header_emitted_as_row:
  "fileText (parseCSV now content name) =
     ''CSV File: '' @ name @ [CHR 0x0A] @
     ''Headers: '' @
       join '' | '' (case csv_lines content of [] \<Rightarrow> [] | l # _ \<Rightarrow> map trim (split_on CHR '','' l)) @
       [CHR 0x0A] @
     ''Total Rows: '' @ show_int (int (length (csv_lines content)) - 1) @ [CHR 0x0A, CHR 0x0A] @
     concat (map (\<lambda>j. csv_row j (csv_lines content ! j))
               [0..<min 100 (length (csv_lines content))]) @
     (if 100 < length (csv_lines content)
      then [CHR 0x0A] @ ''... and '' @ show_nat (length (csv_lines content) - 100) @
             '' more rows'' @ [CHR 0x0A]
      else []) \<and>
   csv_lines (''a,b'' @ [CHR 0x0A] @ ''1,2'' @ [CHR 0x0A]) = [''a,b'', ''1,2''] \<and>
   fileText (parseCSV 0 (''a,b'' @ [CHR 0x0A] @ ''1,2'' @ [CHR 0x0A]) ''f.csv'') =
     ''CSV File: f.csv'' @ [CHR 0x0A] @ ''Headers: a | b'' @ [CHR 0x0A] @
     ''Total Rows: 1'' @ [CHR 0x0A, CHR 0x0A] @
     ''Row 1: a,b'' @ [CHR 0x0A] @ ''Row 2: 1,2'' @ [CHR 0x0A] \<and>
   row_lines (fileText (parseCSV 0 (''a,b'' @ [CHR 0x0A] @ ''1,2'' @ [CHR 0x0A]) ''f.csv'')) =
     [''Row 1: a,b'', ''Row 2: 1,2'']"
proof -
  have l: "csv_lines (''a,b'' @ [CHR 0x0A] @ ''1,2'' @ [CHR 0x0A]) = [''a,b'', ''1,2'']"
    by (simp add: csv_lines_def trim_def is_space_def)
  have t: "fileText (parseCSV 0 (''a,b'' @ [CHR 0x0A] @ ''1,2'' @ [CHR 0x0A]) ''f.csv'') =
     ''CSV File: f.csv'' @ [CHR 0x0A] @ ''Headers: a | b'' @ [CHR 0x0A] @
     ''Total Rows: 1'' @ [CHR 0x0A, CHR 0x0A] @
     ''Row 1: a,b'' @ [CHR 0x0A] @ ''Row 2: 1,2'' @ [CHR 0x0A]"
    by (simp add: parseCSV_def trim_def is_space_def show_int_def digit_char_def Let_def)
  have r: "row_lines (fileText (parseCSV 0 (''a,b'' @ [CHR 0x0A] @ ''1,2'' @ [CHR 0x0A]) ''f.csv'')) =
     [''Row 1: a,b'', ''Row 2: 1,2'']"
    unfolding t by (simp add: row_lines_def)
  from parseCSV_text [of now content name] l t r show ?thesis by (intro conjI)
qed

end
